theory Spec2Isabelle
  imports Complex_Main
begin

section \<open>Values, requests and errors\<close>

text \<open>
  The adapter is TypeScript: \<^verbatim>\<open>ComexstatMCP\<close> registers one tool per operation with a
  zod schema and a handler, and \<^verbatim>\<open>ComexstatClient\<close> turns each call into one HTTP request
  through an axios instance.

  A JavaScript value that travels through the adapter (tool arguments, query parameters,
  request bodies, upstream JSON) is a \<open>jsval\<close>. \<open>JUndefined\<close> is JavaScript's
  \<^verbatim>\<open>undefined\<close> (an omitted argument, a missing property). Numbers are finite doubles;
  each of them is a rational, and the adapter does no arithmetic on them. An object is the
  list of its properties in insertion order; a property is read with \<open>get_prop\<close>. A \<open>char\<close> stands
  for one code unit of a JavaScript string.
\<close>

datatype jsval =
    JUndefined
  | JNull
  | JBool bool
  | JNum rat
  | JStr string
  | JArr "jsval list"
  | JObj "(string \<times> jsval) list"

definition get_prop :: "(string \<times> jsval) list \<Rightarrow> string \<Rightarrow> jsval" where
  "get_prop kvs k = (case map_of kvs k of None \<Rightarrow> JUndefined | Some v \<Rightarrow> v)"

text \<open>JavaScript truthiness, as used by \<^verbatim>\<open>||\<close> and \<^verbatim>\<open>?:\<close>.\<close>

fun truthy :: "jsval \<Rightarrow> bool" where
  "truthy JUndefined = False"
| "truthy JNull = False"
| "truthy (JBool b) = b"
| "truthy (JNum n) = (n \<noteq> 0)"
| "truthy (JStr s) = (s \<noteq> [])"
| "truthy (JArr xs) = True"
| "truthy (JObj kvs) = True"

datatype http_method = GET | POST

text \<open>
  One call of \<^verbatim>\<open>this.client.get(endpoint, config)\<close> or
  \<^verbatim>\<open>this.client.post(endpoint, data, config)\<close>: \<open>params\<close> is \<^verbatim>\<open>config.params\<close>
  (\<open>None\<close> when the config has none), \<open>body\<close> is the data of a POST.
\<close>

record request =
  req_method :: http_method
  url :: string
  params :: "(string \<times> jsval) list option"
  body :: "jsval option"

text \<open>
  \<^verbatim>\<open>axiosError.apiError = { status, message, endpoint }\<close>, the record \<^verbatim>\<open>handleError\<close>
  attaches to the error.
\<close>

record api_error =
  api_status :: "nat option"
  api_message :: jsval
  api_endpoint :: "string option"

text \<open>
  Everything a call can throw. \<open>InvalidParams\<close> is the rejection of the tool registry when
  the zod schema does not accept the arguments (the handler is not run). \<open>Error m\<close> is
  \<^verbatim>\<open>new Error(m)\<close>. \<open>TypeError\<close> is a property read on \<^verbatim>\<open>undefined\<close> or
  \<^verbatim>\<open>null\<close>. \<open>AxiosError\<close> is what the axios instance rejects with: its message, its
  \<^verbatim>\<open>response\<close> (status and parsed body, absent on a transport failure), its
  \<^verbatim>\<open>config.url\<close>, and the \<^verbatim>\<open>apiError\<close> property (absent until \<^verbatim>\<open>handleError\<close> sets it).
\<close>

datatype error =
    InvalidParams
  | Error string
  | TypeError
  | AxiosError (ax_message: string) (ax_response: "(nat \<times> jsval) option")
      (ax_config_url: "string option") (apiError: "api_error option")

text \<open>
  The two lines \<^verbatim>\<open>handleError\<close> writes with \<^verbatim>\<open>console.error\<close>:
  \<^verbatim>\<open>`API Error (${status}): ${message}`\<close>, kept with its two interpolated values, and
  \<^verbatim>\<open>"Non-Axios error:", error\<close>.
\<close>

datatype log_entry =
    ApiErrorLog "nat option" jsval
  | NonAxiosLog error

text \<open>
  The effects of a call: the requests handed to the HTTP layer, in order, and the lines
  written to the console.
\<close>

record world =
  requests :: "request list"
  console :: "log_entry list"

text \<open>
  What the upstream does with a request is not the adapter's to decide: it answers with a
  status and a parsed body, or the transport fails (network error, timeout) with a message.
  The answer may depend on everything sent before.
\<close>

datatype reply = HttpReply nat jsval | TransportFailure string

type_synonym upstream = "request list \<Rightarrow> request \<Rightarrow> reply"

section \<open>The date pattern\<close>

text \<open>
  \<^verbatim>\<open>/^\d{4}-\d{2}$/\<close>: anchored at both ends, no flags, so \<^verbatim>\<open>\d\<close> is an ASCII digit and
  \<^verbatim>\<open>$\<close> is the end of the input. The pattern is a sequence of one-character atoms.
\<close>

datatype atom = Digit | Lit char

definition is_digit :: "char \<Rightarrow> bool" where
  "is_digit c = (c \<in> set ''0123456789'')"

fun atom_matches :: "atom \<Rightarrow> char \<Rightarrow> bool" where
  "atom_matches Digit c = is_digit c"
| "atom_matches (Lit l) c = (c = l)"

fun regex_test :: "atom list \<Rightarrow> string \<Rightarrow> bool" where
  "regex_test [] s = (s = [])"
| "regex_test (a # as) [] = False"
| "regex_test (a # as) (c # cs) = (atom_matches a c \<and> regex_test as cs)"

definition dateFormatRegex :: "atom list" where
  "dateFormatRegex = replicate 4 Digit @ [Lit (CHR ''-'')] @ replicate 2 Digit"

section \<open>The axios instance and the client's get, post and handleError\<close>

fun digit_of :: "nat \<Rightarrow> char" where
  "digit_of n = ''0123456789'' ! (n mod 10)"

fun show_nat :: "nat \<Rightarrow> string" where
  "show_nat n = (if n < 10 then [digit_of n] else show_nat (n div 10) @ [digit_of n])"

declare show_nat.simps [simp del]

text \<open>\<^verbatim>\<open>validateStatus: (status) => status < 400\<close>\<close>

definition validateStatus :: "nat \<Rightarrow> bool" where
  "validateStatus status = (status < 400)"

text \<open>
  The axios instance sends the request and resolves with the response when
  \<open>validateStatus\<close> accepts the status; otherwise it rejects with an AxiosError that holds
  the response. A transport failure rejects with an AxiosError without a response. What
  \<open>get\<close> and \<open>post\<close> use of a resolved response is its \<^verbatim>\<open>data\<close>.
\<close>

definition axios_request :: "upstream \<Rightarrow> request \<Rightarrow> world \<Rightarrow> (error + jsval) \<times> world" where
  "axios_request up r w =
     (let w' = w\<lparr>requests := requests w @ [r]\<rparr> in
      case up (requests w) r of
        HttpReply status d \<Rightarrow>
          if validateStatus status then (Inr d, w')
          else (Inl (AxiosError (''Request failed with status code '' @ show_nat status)
                       (Some (status, d)) (Some (url r)) None), w')
      | TransportFailure m \<Rightarrow> (Inl (AxiosError m None (Some (url r)) None), w'))"

text \<open>
  \<^verbatim>\<open>data?.message\<close> on the body of the failed response: \<^verbatim>\<open>undefined\<close> when there is
  no body or the body is \<^verbatim>\<open>null\<close>, the property of an object, and \<^verbatim>\<open>undefined\<close> on a
  string, number, boolean or array (none of them has a property of that name).
\<close>

fun data_message :: "jsval option \<Rightarrow> jsval" where
  "data_message (Some (JObj kvs)) = get_prop kvs ''message''"
| "data_message _ = JUndefined"

text \<open>
  \<^verbatim>\<open>handleError\<close> mutates the error it is given; the model returns the error as it is
  afterwards.
\<close>

fun handleError :: "error \<Rightarrow> world \<Rightarrow> error \<times> world" where
  "handleError (AxiosError msg resp cfg_url api) w =
     (let status = map_option fst resp;
          data = map_option snd resp;
          message = (if truthy (data_message data) then data_message data else JStr msg)
      in (AxiosError msg resp cfg_url
            (Some \<lparr>api_status = status, api_message = message, api_endpoint = cfg_url\<rparr>),
          w\<lparr>console := console w @ [ApiErrorLog status message]\<rparr>))"
| "handleError e w = (e, w\<lparr>console := console w @ [NonAxiosLog e]\<rparr>)"

definition get :: "upstream \<Rightarrow> string \<Rightarrow> (string \<times> jsval) list option \<Rightarrow> world
    \<Rightarrow> (error + jsval) \<times> world" where
  "get up endpoint ps w =
     (case axios_request up \<lparr>req_method = GET, url = endpoint, params = ps, body = None\<rparr> w of
        (Inr d, w') \<Rightarrow> (Inr d, w')
      | (Inl e, w') \<Rightarrow> (case handleError e w' of (e', w'') \<Rightarrow> (Inl e', w'')))"

definition post :: "upstream \<Rightarrow> string \<Rightarrow> jsval \<Rightarrow> (string \<times> jsval) list option \<Rightarrow> world
    \<Rightarrow> (error + jsval) \<times> world" where
  "post up endpoint d ps w =
     (case axios_request up \<lparr>req_method = POST, url = endpoint, params = ps, body = Some d\<rparr> w of
        (Inr r, w') \<Rightarrow> (Inr r, w')
      | (Inl e, w') \<Rightarrow> (case handleError e w' of (e', w'') \<Rightarrow> (Inl e', w'')))"

section \<open>Schemas\<close>

text \<open>
  The tool registry parses the arguments of a call with \<^verbatim>\<open>z.object(shape)\<close> before it
  runs the handler. Only the schema combinators the registrations use are modelled, each
  with the behaviour the zod library documents: a schema takes the raw value and gives the
  parsed value or rejects. Which issue a rejection reports is not modelled.
\<close>

type_synonym 'a zod = "jsval \<Rightarrow> error + 'a"

definition and_then :: "error + 'a \<Rightarrow> ('a \<Rightarrow> error + 'b) \<Rightarrow> error + 'b" where
  "and_then m f = (case m of Inl e \<Rightarrow> Inl e | Inr a \<Rightarrow> f a)"

fun z_string :: "string zod" where
  "z_string (JStr s) = Inr s"
| "z_string _ = Inl InvalidParams"

fun z_number :: "rat zod" where
  "z_number (JNum n) = Inr n"
| "z_number _ = Inl InvalidParams"

fun z_boolean :: "bool zod" where
  "z_boolean (JBool b) = Inr b"
| "z_boolean _ = Inl InvalidParams"

text \<open>\<^verbatim>\<open>z.string().regex(re, message)\<close>\<close>

definition z_string_regex :: "atom list \<Rightarrow> string zod" where
  "z_string_regex re v =
     and_then (z_string v) (\<lambda>s. if regex_test re s then Inr s else Inl InvalidParams)"

text \<open>\<^verbatim>\<open>z.enum([...])\<close>: a string that is one of the listed values.\<close>

definition z_enum :: "string list \<Rightarrow> string zod" where
  "z_enum allowed v =
     and_then (z_string v) (\<lambda>s. if s \<in> set allowed then Inr s else Inl InvalidParams)"

fun z_all :: "'a zod \<Rightarrow> jsval list \<Rightarrow> error + 'a list" where
  "z_all z [] = Inr []"
| "z_all z (v # vs) = and_then (z v) (\<lambda>x. and_then (z_all z vs) (\<lambda>xs. Inr (x # xs)))"

text \<open>\<^verbatim>\<open>z.array(item)\<close>\<close>

fun z_array :: "'a zod \<Rightarrow> 'a list zod" where
  "z_array z (JArr vs) = z_all z vs"
| "z_array z _ = Inl InvalidParams"

text \<open>\<^verbatim>\<open>schema.optional()\<close>: \<^verbatim>\<open>undefined\<close> is accepted and stays absent.\<close>

definition z_optional :: "'a zod \<Rightarrow> 'a option zod" where
  "z_optional z v = (if v = JUndefined then Inr None else and_then (z v) (\<lambda>x. Inr (Some x)))"

text \<open>
  \<^verbatim>\<open>schema.optional().default(d)\<close>: \<^verbatim>\<open>undefined\<close> is replaced by the default, which
  in every registration is a value the schema accepts.
\<close>

definition z_optional_default :: "'a \<Rightarrow> 'a zod \<Rightarrow> 'a zod" where
  "z_optional_default d z v = (if v = JUndefined then Inr d else z v)"

text \<open>\<^verbatim>\<open>a.or(b)\<close>: the first of the two schemas that accepts the value.\<close>

definition z_or :: "'a zod \<Rightarrow> 'b zod \<Rightarrow> ('a + 'b) zod" where
  "z_or a b v =
     (case a v of Inr x \<Rightarrow> Inr (Inl x)
      | Inl _ \<Rightarrow> (case b v of Inr y \<Rightarrow> Inr (Inr y) | Inl e \<Rightarrow> Inl e))"

text \<open>
  \<^verbatim>\<open>z.object(shape)\<close> accepts an object, reads each key of the shape from it (a missing
  key reads as \<^verbatim>\<open>undefined\<close>) and drops every other key. \<open>z_object\<close> is the check that
  the value is an object; each shape below reads its keys with \<open>get_prop\<close>.
\<close>

definition z_object :: "((string \<times> jsval) list \<Rightarrow> error + 'a) \<Rightarrow> 'a zod" where
  "z_object shape v = (case v of JObj kvs \<Rightarrow> shape kvs | _ \<Rightarrow> Inl InvalidParams)"

text \<open>
  \<^verbatim>\<open>period: z.object({ from: z.string().regex(/^\d{4}-\d{2}$/, ...), to: ... })\<close>, the same
  in the three query tools.
\<close>

record period =
  period_from :: string
  period_to :: string

definition period_schema :: "period zod" where
  "period_schema =
     z_object (\<lambda>kvs.
       and_then (z_string_regex dateFormatRegex (get_prop kvs ''from'')) (\<lambda>f.
       and_then (z_string_regex dateFormatRegex (get_prop kvs ''to'')) (\<lambda>t.
       Inr \<lparr>period_from = f, period_to = t\<rparr>)))"

text \<open>
  One entry of \<^verbatim>\<open>filters\<close>: \<^verbatim>\<open>{ filter, values }\<close>. The type of \<^verbatim>\<open>values\<close> is
  \<^verbatim>\<open>number[]\<close> for queryData and queryMunicipalitiesData and
  \<^verbatim>\<open>number[] | string[]\<close> for queryHistoricalData.
\<close>

record 'v filter_clause =
  clause_filter :: string
  clause_values :: 'v

definition filter_schema :: "string zod \<Rightarrow> 'v zod \<Rightarrow> 'v filter_clause zod" where
  "filter_schema name_schema values_schema =
     z_object (\<lambda>kvs.
       and_then (name_schema (get_prop kvs ''filter'')) (\<lambda>f.
       and_then (values_schema (get_prop kvs ''values'')) (\<lambda>vs.
       Inr \<lparr>clause_filter = f, clause_values = vs\<rparr>)))"

definition filter_enum :: "string list" where
  "filter_enum = [''country'', ''state'', ''economicBlock'', ''section'', ''chapter'',
                  ''position'', ''subposition'', ''ncm'']"

definition metric_enum :: "string list" where
  "metric_enum = [''metricFOB'', ''metricKG'', ''metricStatistic'', ''metricFreight'',
                  ''metricInsurance'', ''metricCIF'']"

text \<open>The parsed arguments of the three query tools.\<close>

record 'v query_args =
  flow :: string
  monthDetail :: bool
  period :: period
  filters :: "'v filter_clause list option"
  details :: "string list"
  metrics :: "string list"
  language :: string

text \<open>The shape registered for \<^verbatim>\<open>queryData\<close>.\<close>

definition queryData_schema :: "rat list query_args zod" where
  "queryData_schema =
     z_object (\<lambda>kvs.
       and_then (z_enum [''export'', ''import''] (get_prop kvs ''flow'')) (\<lambda>fl.
       and_then (z_boolean (get_prop kvs ''monthDetail'')) (\<lambda>md.
       and_then (period_schema (get_prop kvs ''period'')) (\<lambda>p.
       and_then (z_optional (z_array (filter_schema (z_enum filter_enum) (z_array z_number)))
                   (get_prop kvs ''filters'')) (\<lambda>fs.
       and_then (z_array (z_enum filter_enum) (get_prop kvs ''details'')) (\<lambda>ds.
       and_then (z_array (z_enum metric_enum) (get_prop kvs ''metrics'')) (\<lambda>ms.
       and_then (z_optional_default ''pt'' z_string (get_prop kvs ''language'')) (\<lambda>lang.
       Inr \<lparr>flow = fl, monthDetail = md, period = p, filters = fs, details = ds,
            metrics = ms, language = lang\<rparr>))))))))"

text \<open>The shape registered for \<^verbatim>\<open>queryMunicipalitiesData\<close>.\<close>

definition queryMunicipalitiesData_schema :: "rat list query_args zod" where
  "queryMunicipalitiesData_schema =
     z_object (\<lambda>kvs.
       and_then (z_enum [''export'', ''import''] (get_prop kvs ''flow'')) (\<lambda>fl.
       and_then (period_schema (get_prop kvs ''period'')) (\<lambda>p.
       and_then (z_optional_default False z_boolean (get_prop kvs ''monthDetail'')) (\<lambda>md.
       and_then (z_optional (z_array (filter_schema z_string (z_array z_number)))
                   (get_prop kvs ''filters'')) (\<lambda>fs.
       and_then (z_array z_string (get_prop kvs ''details'')) (\<lambda>ds.
       and_then (z_array z_string (get_prop kvs ''metrics'')) (\<lambda>ms.
       and_then (z_optional_default ''pt'' z_string (get_prop kvs ''language'')) (\<lambda>lang.
       Inr \<lparr>flow = fl, monthDetail = md, period = p, filters = fs, details = ds,
            metrics = ms, language = lang\<rparr>))))))))"

text \<open>The shape registered for \<^verbatim>\<open>queryHistoricalData\<close>.\<close>

definition queryHistoricalData_schema :: "(rat list + string list) query_args zod" where
  "queryHistoricalData_schema =
     z_object (\<lambda>kvs.
       and_then (z_enum [''export'', ''import''] (get_prop kvs ''flow'')) (\<lambda>fl.
       and_then (period_schema (get_prop kvs ''period'')) (\<lambda>p.
       and_then (z_optional_default False z_boolean (get_prop kvs ''monthDetail'')) (\<lambda>md.
       and_then (z_optional (z_array (filter_schema z_string
                     (z_or (z_array z_number) (z_array z_string))))
                   (get_prop kvs ''filters'')) (\<lambda>fs.
       and_then (z_array z_string (get_prop kvs ''details'')) (\<lambda>ds.
       and_then (z_array z_string (get_prop kvs ''metrics'')) (\<lambda>ms.
       and_then (z_optional_default ''pt'' z_string (get_prop kvs ''language'')) (\<lambda>lang.
       Inr \<lparr>flow = fl, monthDetail = md, period = p, filters = fs, details = ds,
            metrics = ms, language = lang\<rparr>))))))))"

text \<open>The shape registered for \<^verbatim>\<open>getFilterValues\<close>.\<close>

record filterValues_args =
  fv_filter :: string
  fv_language :: "string option"

definition getFilterValues_schema :: "filterValues_args zod" where
  "getFilterValues_schema =
     z_object (\<lambda>kvs.
       and_then (z_string (get_prop kvs ''filter'')) (\<lambda>f.
       and_then (z_optional z_string (get_prop kvs ''language'')) (\<lambda>lang.
       Inr \<lparr>fv_filter = f, fv_language = lang\<rparr>)))"

text \<open>The shape registered for \<^verbatim>\<open>getAuxiliaryTable\<close>.\<close>

record auxiliaryTable_args =
  aux_table :: string
  aux_search :: "string option"
  aux_page :: "rat option"
  aux_pageSize :: "rat option"

definition getAuxiliaryTable_schema :: "auxiliaryTable_args zod" where
  "getAuxiliaryTable_schema =
     z_object (\<lambda>kvs.
       and_then (z_string (get_prop kvs ''table'')) (\<lambda>t.
       and_then (z_optional z_string (get_prop kvs ''search'')) (\<lambda>s.
       and_then (z_optional z_number (get_prop kvs ''page'')) (\<lambda>pg.
       and_then (z_optional z_number (get_prop kvs ''pageSize'')) (\<lambda>sz.
       Inr \<lparr>aux_table = t, aux_search = s, aux_page = pg, aux_pageSize = sz\<rparr>)))))"

text \<open>The shape registered for \<^verbatim>\<open>getEconomicBlocks\<close>.\<close>

record economicBlocks_args =
  eb_language :: string
  eb_add :: "string option"
  eb_search :: "string option"

definition getEconomicBlocks_schema :: "economicBlocks_args zod" where
  "getEconomicBlocks_schema =
     z_object (\<lambda>kvs.
       and_then (z_optional_default ''pt'' z_string (get_prop kvs ''language'')) (\<lambda>lang.
       and_then (z_optional z_string (get_prop kvs ''add'')) (\<lambda>a.
       and_then (z_optional z_string (get_prop kvs ''search'')) (\<lambda>s.
       Inr \<lparr>eb_language = lang, eb_add = a, eb_search = s\<rparr>))))"

text \<open>The shape registered for \<^verbatim>\<open>getHarmonizedSystem\<close>.\<close>

record harmonizedSystem_args =
  hs_language :: string
  hs_page :: rat
  hs_perPage :: rat
  hs_add :: "string option"

definition getHarmonizedSystem_schema :: "harmonizedSystem_args zod" where
  "getHarmonizedSystem_schema =
     z_object (\<lambda>kvs.
       and_then (z_optional_default ''pt'' z_string (get_prop kvs ''language'')) (\<lambda>lang.
       and_then (z_optional_default 1 z_number (get_prop kvs ''page'')) (\<lambda>pg.
       and_then (z_optional_default 10 z_number (get_prop kvs ''perPage'')) (\<lambda>pp.
       and_then (z_optional z_string (get_prop kvs ''add'')) (\<lambda>a.
       Inr \<lparr>hs_language = lang, hs_page = pg, hs_perPage = pp, hs_add = a\<rparr>)))))"

text \<open>The shape registered for \<^verbatim>\<open>getNBM\<close>.\<close>

record nbm_args =
  nbm_language :: string
  nbm_page :: rat
  nbm_perPage :: rat
  nbm_add :: "string option"
  nbm_search :: "string option"

definition getNBM_schema :: "nbm_args zod" where
  "getNBM_schema =
     z_object (\<lambda>kvs.
       and_then (z_optional_default ''pt'' z_string (get_prop kvs ''language'')) (\<lambda>lang.
       and_then (z_optional_default 1 z_number (get_prop kvs ''page'')) (\<lambda>pg.
       and_then (z_optional_default 5 z_number (get_prop kvs ''perPage'')) (\<lambda>pp.
       and_then (z_optional z_string (get_prop kvs ''add'')) (\<lambda>a.
       and_then (z_optional z_string (get_prop kvs ''search'')) (\<lambda>s.
       Inr \<lparr>nbm_language = lang, nbm_page = pg, nbm_perPage = pp, nbm_add = a,
            nbm_search = s\<rparr>))))))"

section \<open>The client's operations\<close>

text \<open>
  The parameters have the types of the TypeScript signatures. A parameter with a default
  value (\<^verbatim>\<open>language: string = "pt"\<close>) or marked optional is an \<open>option\<close>; the default
  replaces \<^verbatim>\<open>undefined\<close>. The functions below give the JavaScript value of a typed
  argument where it is put into a request.
\<close>

definition default_param :: "'a \<Rightarrow> 'a option \<Rightarrow> 'a" where
  "default_param d x = (case x of None \<Rightarrow> d | Some v \<Rightarrow> v)"

definition js_strings :: "string list \<Rightarrow> jsval" where
  "js_strings xs = JArr (map JStr xs)"

definition js_numbers :: "rat list \<Rightarrow> jsval" where
  "js_numbers ns = JArr (map JNum ns)"

definition js_numbers_or_strings :: "rat list + string list \<Rightarrow> jsval" where
  "js_numbers_or_strings vs = (case vs of Inl ns \<Rightarrow> js_numbers ns | Inr ss \<Rightarrow> js_strings ss)"

definition js_opt_string :: "string option \<Rightarrow> jsval" where
  "js_opt_string x = (case x of None \<Rightarrow> JUndefined | Some s \<Rightarrow> JStr s)"

definition js_period :: "period \<Rightarrow> jsval" where
  "js_period p = JObj [(''from'', JStr (period_from p)), (''to'', JStr (period_to p))]"

definition js_filters :: "('v \<Rightarrow> jsval) \<Rightarrow> 'v filter_clause list \<Rightarrow> jsval" where
  "js_filters js_values fs =
     JArr (map (\<lambda>c. JObj [(''filter'', JStr (clause_filter c)),
                            (''values'', js_values (clause_values c))]) fs)"

text \<open>The message of the error the three query operations throw on a malformed period.\<close>

definition period_message :: string where
  "period_message =
     ''Period dates must be in YYYY-MM format (e.g., '' @ [CHR 0x22] @ ''2023-01'' @ [CHR 0x22] @ '')''"

text \<open>The object literal \<^verbatim>\<open>{ flow, monthDetail, period, filters, details, metrics }\<close>.\<close>

definition query_body :: "('v \<Rightarrow> jsval) \<Rightarrow> string \<Rightarrow> bool \<Rightarrow> period \<Rightarrow> 'v filter_clause list
    \<Rightarrow> string list \<Rightarrow> string list \<Rightarrow> jsval" where
  "query_body js_values fl md p fs ds ms =
     JObj [(''flow'', JStr fl), (''monthDetail'', JBool md), (''period'', js_period p),
           (''filters'', js_filters js_values fs), (''details'', js_strings ds),
           (''metrics'', js_strings ms)]"

definition queryData :: "upstream \<Rightarrow> string \<Rightarrow> period \<Rightarrow> bool \<Rightarrow> rat list filter_clause list option
    \<Rightarrow> string list \<Rightarrow> string list \<Rightarrow> string option \<Rightarrow> world \<Rightarrow> (error + jsval) \<times> world" where
  "queryData up fl p md fs ds ms lang w =
     (if \<not> regex_test dateFormatRegex (period_from p) \<or> \<not> regex_test dateFormatRegex (period_to p)
      then (Inl (Error period_message), w)
      else post up ''/general''
             (query_body js_numbers fl md p (default_param [] fs) ds ms)
             (Some [(''language'', JStr (default_param ''pt'' lang))]) w)"

definition queryMunicipalitiesData :: "upstream \<Rightarrow> string \<Rightarrow> period \<Rightarrow> bool option
    \<Rightarrow> rat list filter_clause list option \<Rightarrow> string list \<Rightarrow> string list \<Rightarrow> string option
    \<Rightarrow> world \<Rightarrow> (error + jsval) \<times> world" where
  "queryMunicipalitiesData up fl p md fs ds ms lang w =
     (if \<not> regex_test dateFormatRegex (period_from p) \<or> \<not> regex_test dateFormatRegex (period_to p)
      then (Inl (Error period_message), w)
      else post up ''/cities''
             (query_body js_numbers fl (default_param False md) p (default_param [] fs) ds ms)
             (Some [(''language'', JStr (default_param ''pt'' lang))]) w)"

definition queryHistoricalData :: "upstream \<Rightarrow> string \<Rightarrow> period \<Rightarrow> bool option
    \<Rightarrow> (rat list + string list) filter_clause list option \<Rightarrow> string list \<Rightarrow> string list
    \<Rightarrow> string option \<Rightarrow> world \<Rightarrow> (error + jsval) \<times> world" where
  "queryHistoricalData up fl p md fs ds ms lang w =
     (if \<not> regex_test dateFormatRegex (period_from p) \<or> \<not> regex_test dateFormatRegex (period_to p)
      then (Inl (Error period_message), w)
      else post up ''/historical-data''
             (query_body js_numbers_or_strings fl (default_param False md) p
                (default_param [] fs) ds ms)
             (Some [(''language'', JStr (default_param ''pt'' lang))]) w)"

text \<open>
  \<^verbatim>\<open>response.data\<close> on what \<open>get\<close> returned. The upstream's JSON is not checked against
  the declared type, so the read is modelled on every value: it throws on
  \<^verbatim>\<open>undefined\<close> and \<^verbatim>\<open>null\<close>, reads the property of an object, and is
  \<^verbatim>\<open>undefined\<close> on a string, number, boolean or array.
\<close>

fun response_data :: "jsval \<Rightarrow> error + jsval" where
  "response_data JUndefined = Inl TypeError"
| "response_data JNull = Inl TypeError"
| "response_data (JObj kvs) = Inr (get_prop kvs ''data'')"
| "response_data _ = Inr JUndefined"

text \<open>
  \<^verbatim>\<open>x[0]\<close>: throws on \<^verbatim>\<open>undefined\<close> and \<^verbatim>\<open>null\<close>; the first element of an array
  and \<^verbatim>\<open>undefined\<close> when the array is empty; the property \<^verbatim>\<open>"0"\<close> of an object; the
  first code unit of a string.
\<close>

fun index0 :: "jsval \<Rightarrow> error + jsval" where
  "index0 JUndefined = Inl TypeError"
| "index0 JNull = Inl TypeError"
| "index0 (JArr []) = Inr JUndefined"
| "index0 (JArr (x # xs)) = Inr x"
| "index0 (JObj kvs) = Inr (get_prop kvs ''0'')"
| "index0 (JStr []) = Inr JUndefined"
| "index0 (JStr (c # cs)) = Inr (JStr [c])"
| "index0 _ = Inr JUndefined"

definition getFilterValues :: "upstream \<Rightarrow> string \<Rightarrow> string option \<Rightarrow> world
    \<Rightarrow> (error + jsval) \<times> world" where
  "getFilterValues up f lang w =
     (case get up (''/general/filters/'' @ f)
             (Some [(''language'', JStr (default_param ''pt'' lang))]) w of
        (Inl e, w') \<Rightarrow> (Inl e, w')
      | (Inr response, w') \<Rightarrow> (and_then (response_data response) index0, w'))"

definition getAuxiliaryTable :: "upstream \<Rightarrow> string \<Rightarrow> string option \<Rightarrow> rat option \<Rightarrow> rat option
    \<Rightarrow> world \<Rightarrow> (error + jsval) \<times> world" where
  "getAuxiliaryTable up t s pg sz w =
     get up (''/auxiliary/'' @ t)
       (Some [(''search'', js_opt_string s), (''page'', JNum (default_param 1 pg)),
              (''pageSize'', JNum (default_param 100 sz))]) w"

text \<open>
  The three table operations take the \<^verbatim>\<open>options\<close> object (or nothing) and hand it to
  \<open>get\<close> as the query parameters.
\<close>

definition getEconomicBlocks :: "upstream \<Rightarrow> (string \<times> jsval) list option \<Rightarrow> world
    \<Rightarrow> (error + jsval) \<times> world" where
  "getEconomicBlocks up options w = get up ''/tables/economic-blocks'' options w"

definition getHarmonizedSystem :: "upstream \<Rightarrow> (string \<times> jsval) list option \<Rightarrow> world
    \<Rightarrow> (error + jsval) \<times> world" where
  "getHarmonizedSystem up options w = get up ''/tables/hs'' options w"

definition getNBM :: "upstream \<Rightarrow> (string \<times> jsval) list option \<Rightarrow> world
    \<Rightarrow> (error + jsval) \<times> world" where
  "getNBM up options w = get up ''/tables/nbm'' options w"

text \<open>
  The query string axios builds from \<^verbatim>\<open>config.params\<close> leaves out every parameter
  whose value is \<^verbatim>\<open>undefined\<close> or \<^verbatim>\<open>null\<close>.
\<close>

definition effective_params :: "request \<Rightarrow> (string \<times> jsval) list" where
  "effective_params r =
     (case params r of None \<Rightarrow> []
      | Some kvs \<Rightarrow> filter (\<lambda>kv. snd kv \<noteq> JUndefined \<and> snd kv \<noteq> JNull) kvs)"

section \<open>The registered tools\<close>

text \<open>
  The result of a handler is
  \<^verbatim>\<open>{ content: [{ type: "text", text: JSON.stringify(value) }] }\<close>; \<open>JsonText value\<close>
  stands for it, with the serialisation left to the language.
\<close>

datatype tool_result = JsonText jsval

definition json_text :: "(error + jsval) \<times> world \<Rightarrow> (error + tool_result) \<times> world" where
  "json_text r = (case r of (Inl e, w) \<Rightarrow> (Inl e, w) | (Inr v, w) \<Rightarrow> (Inr (JsonText v), w))"

text \<open>
  \<^verbatim>\<open>this.server.tool(name, shape, handler)\<close>: a call parses its arguments with the shape
  and runs the handler on the parsed arguments; when the shape rejects them the handler is
  not run.
\<close>

definition tool :: "'a zod \<Rightarrow> ('a \<Rightarrow> world \<Rightarrow> (error + tool_result) \<times> world) \<Rightarrow> jsval \<Rightarrow> world
    \<Rightarrow> (error + tool_result) \<times> world" where
  "tool schema handler raw w = (case schema raw of Inl e \<Rightarrow> (Inl e, w) | Inr a \<Rightarrow> handler a w)"

text \<open>\<^verbatim>\<open>filters || []\<close>: an array, also an empty one, is truthy.\<close>

definition or_empty :: "'a list option \<Rightarrow> 'a list" where
  "or_empty fs = (case fs of None \<Rightarrow> [] | Some xs \<Rightarrow> xs)"

definition tool_queryData :: "upstream \<Rightarrow> jsval \<Rightarrow> world \<Rightarrow> (error + tool_result) \<times> world" where
  "tool_queryData up =
     tool queryData_schema (\<lambda>a w.
       json_text (queryData up (flow a) (period a) (monthDetail a) (Some (or_empty (filters a)))
                    (details a) (metrics a) (Some (language a)) w))"

definition tool_queryMunicipalitiesData :: "upstream \<Rightarrow> jsval \<Rightarrow> world
    \<Rightarrow> (error + tool_result) \<times> world" where
  "tool_queryMunicipalitiesData up =
     tool queryMunicipalitiesData_schema (\<lambda>a w.
       json_text (queryMunicipalitiesData up (flow a) (period a) (Some (monthDetail a))
                    (Some (or_empty (filters a))) (details a) (metrics a) (Some (language a)) w))"

definition tool_queryHistoricalData :: "upstream \<Rightarrow> jsval \<Rightarrow> world
    \<Rightarrow> (error + tool_result) \<times> world" where
  "tool_queryHistoricalData up =
     tool queryHistoricalData_schema (\<lambda>a w.
       json_text (queryHistoricalData up (flow a) (period a) (Some (monthDetail a))
                    (Some (or_empty (filters a))) (details a) (metrics a) (Some (language a)) w))"

definition tool_getFilterValues :: "upstream \<Rightarrow> jsval \<Rightarrow> world \<Rightarrow> (error + tool_result) \<times> world" where
  "tool_getFilterValues up =
     tool getFilterValues_schema (\<lambda>a w.
       json_text (getFilterValues up (fv_filter a) (fv_language a) w))"

definition tool_getAuxiliaryTable :: "upstream \<Rightarrow> jsval \<Rightarrow> world
    \<Rightarrow> (error + tool_result) \<times> world" where
  "tool_getAuxiliaryTable up =
     tool getAuxiliaryTable_schema (\<lambda>a w.
       json_text (getAuxiliaryTable up (aux_table a) (aux_search a) (aux_page a)
                    (aux_pageSize a) w))"

definition tool_getEconomicBlocks :: "upstream \<Rightarrow> jsval \<Rightarrow> world
    \<Rightarrow> (error + tool_result) \<times> world" where
  "tool_getEconomicBlocks up =
     tool getEconomicBlocks_schema (\<lambda>a w.
       json_text (getEconomicBlocks up
         (Some [(''language'', JStr (eb_language a)), (''add'', js_opt_string (eb_add a)),
                (''search'', js_opt_string (eb_search a))]) w))"

definition tool_getHarmonizedSystem :: "upstream \<Rightarrow> jsval \<Rightarrow> world
    \<Rightarrow> (error + tool_result) \<times> world" where
  "tool_getHarmonizedSystem up =
     tool getHarmonizedSystem_schema (\<lambda>a w.
       json_text (getHarmonizedSystem up
         (Some [(''language'', JStr (hs_language a)), (''page'', JNum (hs_page a)),
                (''perPage'', JNum (hs_perPage a)), (''add'', js_opt_string (hs_add a))]) w))"

definition tool_getNBM :: "upstream \<Rightarrow> jsval \<Rightarrow> world \<Rightarrow> (error + tool_result) \<times> world" where
  "tool_getNBM up =
     tool getNBM_schema (\<lambda>a w.
       json_text (getNBM up
         (Some [(''language'', JStr (nbm_language a)), (''page'', JNum (nbm_page a)),
                (''perPage'', JNum (nbm_perPage a)), (''add'', js_opt_string (nbm_add a)),
                (''search'', js_opt_string (nbm_search a))]) w))"

section \<open>Vocabulary of the statements\<close>

text \<open>
  An upstream failure: a status the instance's \<open>validateStatus\<close> refuses, or a transport
  failure. \<open>reply_response\<close> is the \<^verbatim>\<open>response\<close> of the rejection axios raises for it
  and \<open>reply_message\<close> its message.
\<close>

definition failed :: "reply \<Rightarrow> bool" where
  "failed rep = (case rep of HttpReply status d \<Rightarrow> 400 \<le> status | TransportFailure m \<Rightarrow> True)"

fun reply_response :: "reply \<Rightarrow> (nat \<times> jsval) option" where
  "reply_response (HttpReply status d) = Some (status, d)"
| "reply_response (TransportFailure m) = None"

fun reply_message :: "reply \<Rightarrow> string" where
  "reply_message (HttpReply status d) = ''Request failed with status code '' @ show_nat status"
| "reply_message (TransportFailure m) = m"

text \<open>A schema whose every rejection is \<open>InvalidParams\<close>.\<close>

definition rejects_only :: "'a zod \<Rightarrow> bool" where
  "rejects_only z = (\<forall>v e. z v = Inl e \<longrightarrow> e = InvalidParams)"

text \<open>A raw value that is a string of the form \<^verbatim>\<open>YYYY-MM\<close>.\<close>

fun matches_date :: "jsval \<Rightarrow> bool" where
  "matches_date (JStr s) = regex_test dateFormatRegex s"
| "matches_date _ = False"

text \<open>
  The request the specification describes for a queryData call with the validated
  arguments \<open>a\<close>: a POST to \<^verbatim>\<open>/general\<close> with the query parameter \<^verbatim>\<open>language\<close> and a
  body of exactly the six fields flow, monthDetail, period, filters, details, metrics.
\<close>

definition general_request :: "rat list query_args \<Rightarrow> request" where
  "general_request a =
     \<lparr>req_method = POST, url = ''/general'',
      params = Some [(''language'', JStr (language a))],
      body = Some (JObj
        [(''flow'', JStr (flow a)),
         (''monthDetail'', JBool (monthDetail a)),
         (''period'', JObj [(''from'', JStr (period_from (period a))),
                            (''to'', JStr (period_to (period a)))]),
         (''filters'', JArr (map (\<lambda>c. JObj [(''filter'', JStr (clause_filter c)),
                                              (''values'', JArr (map JNum (clause_values c)))])
                              (case filters a of None \<Rightarrow> [] | Some fs \<Rightarrow> fs))),
         (''details'', JArr (map JStr (details a))),
         (''metrics'', JArr (map JStr (metrics a)))])\<rparr>"

text \<open>
  The request of getFilterValues for the filter \<open>f\<close> and the optional language \<open>lang\<close>:
  a GET of \<^verbatim>\<open>/general/filters/{filter}\<close> with the query parameter \<^verbatim>\<open>language\<close>.
\<close>

definition filter_values_request :: "string \<Rightarrow> string option \<Rightarrow> request" where
  "filter_values_request f lang =
     \<lparr>req_method = GET, url = ''/general/filters/'' @ f,
      params = Some [(''language'', JStr (case lang of None \<Rightarrow> ''pt'' | Some l \<Rightarrow> l))],
      body = None\<rparr>"

text \<open>An upstream that answers every request with status 200 and the body \<^verbatim>\<open>null\<close>.\<close>

definition answers_ok :: upstream where
  "answers_ok history r = HttpReply 200 JNull"

text \<open>
  The message the specification gives the surfaced failure, written from its words: the
  \<^verbatim>\<open>message\<close> field of the response body, and the message of the transport when there is
  no usable one. \<open>body_message\<close> lists when the field is usable: the body is an object, the
  field is present, and its value is none of \<^verbatim>\<open>undefined\<close>, \<^verbatim>\<open>null\<close>, \<^verbatim>\<open>false\<close>,
  \<^verbatim>\<open>0\<close> and the empty string.
\<close>

fun body_message :: "jsval \<Rightarrow> jsval option" where
  "body_message (JObj kvs) =
     (case map_of kvs ''message'' of
        None \<Rightarrow> None
      | Some JUndefined \<Rightarrow> None
      | Some JNull \<Rightarrow> None
      | Some (JBool b) \<Rightarrow> (if b then Some (JBool b) else None)
      | Some (JNum n) \<Rightarrow> (if n = 0 then None else Some (JNum n))
      | Some (JStr s) \<Rightarrow> (if s = [] then None else Some (JStr s))
      | Some (JArr xs) \<Rightarrow> Some (JArr xs)
      | Some (JObj inner) \<Rightarrow> Some (JObj inner))"
| "body_message _ = None"

fun expected_message :: "reply \<Rightarrow> jsval" where
  "expected_message (HttpReply status d) =
     (case body_message d of
        Some m \<Rightarrow> m
      | None \<Rightarrow> JStr (''Request failed with status code '' @ show_nat status))"
| "expected_message (TransportFailure m) = JStr m"

text \<open>
  Two upstreams for the instances: one answers every request with status 400 and the body
  \<^verbatim>\<open>{message: "Invalid parameters"}\<close>, the other with status 503 and an empty
  \<^verbatim>\<open>message\<close>.
\<close>

definition answers_invalid_parameters :: upstream where
  "answers_invalid_parameters history r =
     HttpReply 400 (JObj [(''message'', JStr ''Invalid parameters'')])"

definition answers_unavailable :: upstream where
  "answers_unavailable history r = HttpReply 503 (JObj [(''message'', JStr [])])"

section \<open>Properties\<close>

subsection \<open>Results and schemas\<close>

lemma and_then_Inr_iff: "and_then m f = Inr b \<longleftrightarrow> (\<exists>a. m = Inr a \<and> f a = Inr b)"
  by (cases m) (simp_all add: and_then_def)

lemma and_then_Inl [simp]: "and_then (Inl e) f = Inl e"
  by (simp add: and_then_def)

lemma and_then_Inr [simp]: "and_then (Inr a) f = f a"
  by (simp add: and_then_def)

subsection \<open>Upstream failures\<close>

lemma axios_request_failed:
  assumes "up (requests w) r = rep" and "failed rep"
  shows "axios_request up r w =
     (Inl (AxiosError (reply_message rep) (reply_response rep) (Some (url r)) None),
      w\<lparr>requests := requests w @ [r]\<rparr>)"
  using assms
  by (cases rep) (simp_all add: axios_request_def failed_def validateStatus_def Let_def)

lemma message_or_fallback:
  "(if truthy (data_message (Some d)) then data_message (Some d) else JStr msg) =
     (case body_message d of Some m \<Rightarrow> m | None \<Rightarrow> JStr msg)"
proof (cases d)
  case (JObj kvs)
  show ?thesis
  proof (cases "map_of kvs ''message''")
    case None
    with JObj show ?thesis by (simp add: get_prop_def)
  next
    case (Some v)
    with JObj show ?thesis by (cases v) (simp_all add: get_prop_def)
  qed
qed simp_all

lemma handleError_message:
  "(if truthy (data_message (map_option snd (reply_response rep)))
    then data_message (map_option snd (reply_response rep))
    else JStr (reply_message rep)) = expected_message rep"
proof (cases rep)
  case (HttpReply status d)
  show ?thesis
    unfolding HttpReply
    by (simp only: reply_response.simps reply_message.simps expected_message.simps option.map
          snd_conv message_or_fallback)
next
  case (TransportFailure m)
  then show ?thesis
    by simp
qed

lemma get_failed:
  assumes "up (requests w) \<lparr>req_method = GET, url = endpoint, params = ps, body = None\<rparr> = rep"
    and "failed rep"
  shows "get up endpoint ps w =
           (Inl (AxiosError (reply_message rep) (reply_response rep) (Some endpoint)
                   (Some \<lparr>api_status = map_option fst (reply_response rep),
                          api_message = expected_message rep,
                          api_endpoint = Some endpoint\<rparr>)),
            w\<lparr>requests := requests w
                   @ [\<lparr>req_method = GET, url = endpoint, params = ps, body = None\<rparr>],
              console := console w
                   @ [ApiErrorLog (map_option fst (reply_response rep)) (expected_message rep)]\<rparr>)"
  using axios_request_failed
          [of up w "\<lparr>req_method = GET, url = endpoint, params = ps, body = None\<rparr>" rep] assms
  by (simp add: get_def Let_def handleError_message)

lemma post_failed:
  assumes "up (requests w) \<lparr>req_method = POST, url = endpoint, params = ps, body = Some d\<rparr> = rep"
    and "failed rep"
  shows "post up endpoint d ps w =
           (Inl (AxiosError (reply_message rep) (reply_response rep) (Some endpoint)
                   (Some \<lparr>api_status = map_option fst (reply_response rep),
                          api_message = expected_message rep,
                          api_endpoint = Some endpoint\<rparr>)),
            w\<lparr>requests := requests w
                   @ [\<lparr>req_method = POST, url = endpoint, params = ps, body = Some d\<rparr>],
              console := console w
                   @ [ApiErrorLog (map_option fst (reply_response rep)) (expected_message rep)]\<rparr>)"
  using axios_request_failed
          [of up w "\<lparr>req_method = POST, url = endpoint, params = ps, body = Some d\<rparr>" rep] assms
  by (simp add: post_def Let_def handleError_message)

text \<open>
  Read as it stands, C5 has a status 400 with the body \<^verbatim>\<open>{message: "Invalid parameters"}\<close>
  surface an error whose message is \<^verbatim>\<open>"Invalid parameters"\<close>, wrapped into an error of
  its own kind. The error that \<open>post\<close> rethrows is the rejection of the HTTP layer itself,
  and its message is still \<^verbatim>\<open>"Request failed with status code 400"\<close>; the text of the
  body is only in the \<^verbatim>\<open>apiError\<close> that \<open>handleError\<close> attached to it.
\<close>

theorem rethrown_error_keeps_its_message:
  "fst (post answers_invalid_parameters ''/general'' (JObj []) None
          \<lparr>requests = [], console = []\<rparr>) =
     Inl (AxiosError ''Request failed with status code 400''
            (Some (400, JObj [(''message'', JStr ''Invalid parameters'')])) (Some ''/general'')
            (Some \<lparr>api_status = Some 400, api_message = JStr ''Invalid parameters'',
                   api_endpoint = Some ''/general''\<rparr>))
   \<and> ax_message (AxiosError ''Request failed with status code 400''
            (Some (400, JObj [(''message'', JStr ''Invalid parameters'')])) (Some ''/general'')
            (Some \<lparr>api_status = Some 400, api_message = JStr ''Invalid parameters'',
                   api_endpoint = Some ''/general''\<rparr>)) \<noteq> ''Invalid parameters''"
proof -
  have f: "failed (HttpReply 400 (JObj [(''message'', JStr ''Invalid parameters'')]))"
    by (simp add: failed_def)
  have n: "show_nat 400 = ''400''"
    by code_simp
  have r: "answers_invalid_parameters (requests \<lparr>requests = [], console = []\<rparr>)
          \<lparr>req_method = POST, url = ''/general'', params = None, body = Some (JObj [])\<rparr>
        = HttpReply 400 (JObj [(''message'', JStr ''Invalid parameters'')])"
    by (simp add: answers_invalid_parameters_def)
  from post_failed
         [of answers_invalid_parameters "\<lparr>requests = [], console = []\<rparr>" "''/general''" None
             "JObj []" "HttpReply 400 (JObj [(''message'', JStr ''Invalid parameters'')])"]
       r f n
  show ?thesis
    by simp
qed

text \<open>
  C5, amended. When the upstream answers a request of \<open>get\<close> or \<open>post\<close> with a status of
  400 or more, or the transport fails, the call ends in an error and never in a value. The
  error is the rejection of the HTTP layer itself, rethrown: it keeps its own message
  (\<^verbatim>\<open>"Request failed with status code N"\<close>, or the message of the transport), its response
  and its endpoint. Before it is rethrown it is given the record \<^verbatim>\<open>apiError\<close>: the status
  of the response (absent on a transport failure); the \<^verbatim>\<open>message\<close> field of the response
  body, or the error's own message when the body has no usable one
  (\<open>expected_message\<close>); and the endpoint the request went to. The console has one more
  line, with that status and that message. The request itself is the only one issued.
\<close>

theorem upstream_failure_logged_and_rethrown:
  assumes "failed rep"
  shows "(up (requests w) \<lparr>req_method = GET, url = endpoint, params = ps, body = None\<rparr> = rep \<longrightarrow>
           get up endpoint ps w =
             (Inl (AxiosError (reply_message rep) (reply_response rep) (Some endpoint)
                     (Some \<lparr>api_status = map_option fst (reply_response rep),
                            api_message = expected_message rep,
                            api_endpoint = Some endpoint\<rparr>)),
              w\<lparr>requests := requests w
                     @ [\<lparr>req_method = GET, url = endpoint, params = ps, body = None\<rparr>],
                console := console w
                     @ [ApiErrorLog (map_option fst (reply_response rep))
                          (expected_message rep)]\<rparr>))
       \<and> (up (requests w) \<lparr>req_method = POST, url = endpoint, params = ps, body = Some d\<rparr> = rep \<longrightarrow>
           post up endpoint d ps w =
             (Inl (AxiosError (reply_message rep) (reply_response rep) (Some endpoint)
                     (Some \<lparr>api_status = map_option fst (reply_response rep),
                            api_message = expected_message rep,
                            api_endpoint = Some endpoint\<rparr>)),
              w\<lparr>requests := requests w
                     @ [\<lparr>req_method = POST, url = endpoint, params = ps, body = Some d\<rparr>],
                console := console w
                     @ [ApiErrorLog (map_option fst (reply_response rep))
                          (expected_message rep)]\<rparr>))"
  using assms get_failed [of up w endpoint ps rep] post_failed [of up w endpoint ps d rep]
  by blast

text \<open>
  Two instances. Status 400 with the body \<^verbatim>\<open>{message: "Invalid parameters"}\<close>, answered
  to a POST to \<^verbatim>\<open>/general\<close>: the \<^verbatim>\<open>apiError\<close> has the status 400 and the message of the
  body. Status 503 with an empty \<^verbatim>\<open>message\<close>, answered to a GET: the \<^verbatim>\<open>apiError\<close> falls
  back to the error's own message.
\<close>

theorem upstream_failure_logged_and_rethrown_witness:
  "failed (HttpReply 400 (JObj [(''message'', JStr ''Invalid parameters'')]))
   \<and> post answers_invalid_parameters ''/general'' (JObj []) None \<lparr>requests = [], console = []\<rparr> =
       (Inl (AxiosError ''Request failed with status code 400''
               (Some (400, JObj [(''message'', JStr ''Invalid parameters'')])) (Some ''/general'')
               (Some \<lparr>api_status = Some 400, api_message = JStr ''Invalid parameters'',
                      api_endpoint = Some ''/general''\<rparr>)),
        \<lparr>requests = [\<lparr>req_method = POST, url = ''/general'', params = None,
                       body = Some (JObj [])\<rparr>],
          console = [ApiErrorLog (Some 400) (JStr ''Invalid parameters'')]\<rparr>)
   \<and> failed (HttpReply 503 (JObj [(''message'', JStr [])]))
   \<and> get answers_unavailable ''/tables/uf'' None \<lparr>requests = [], console = []\<rparr> =
       (Inl (AxiosError ''Request failed with status code 503''
               (Some (503, JObj [(''message'', JStr [])])) (Some ''/tables/uf'')
               (Some \<lparr>api_status = Some 503,
                      api_message = JStr ''Request failed with status code 503'',
                      api_endpoint = Some ''/tables/uf''\<rparr>)),
        \<lparr>requests = [\<lparr>req_method = GET, url = ''/tables/uf'', params = None, body = None\<rparr>],
          console = [ApiErrorLog (Some 503) (JStr ''Request failed with status code 503'')]\<rparr>)"
proof -
  let ?w = "\<lparr>requests = [], console = []\<rparr>"
  have f1: "failed (HttpReply 400 (JObj [(''message'', JStr ''Invalid parameters'')]))"
    by (simp add: failed_def)
  have f2: "failed (HttpReply 503 (JObj [(''message'', JStr [])]))"
    by (simp add: failed_def)
  have n1: "show_nat 400 = ''400''"
    by code_simp
  have n2: "show_nat 503 = ''503''"
    by code_simp
  from upstream_failure_logged_and_rethrown
         [OF f1, of answers_invalid_parameters ?w "''/general''" None "JObj []"]
  have a: "post answers_invalid_parameters ''/general'' (JObj []) None ?w =
       (Inl (AxiosError ''Request failed with status code 400''
               (Some (400, JObj [(''message'', JStr ''Invalid parameters'')])) (Some ''/general'')
               (Some \<lparr>api_status = Some 400, api_message = JStr ''Invalid parameters'',
                      api_endpoint = Some ''/general''\<rparr>)),
        \<lparr>requests = [\<lparr>req_method = POST, url = ''/general'', params = None,
                       body = Some (JObj [])\<rparr>],
          console = [ApiErrorLog (Some 400) (JStr ''Invalid parameters'')]\<rparr>)"
    by (simp add: answers_invalid_parameters_def n1)
  from upstream_failure_logged_and_rethrown
         [OF f2, of answers_unavailable ?w "''/tables/uf''" None]
  have b: "get answers_unavailable ''/tables/uf'' None ?w =
       (Inl (AxiosError ''Request failed with status code 503''
               (Some (503, JObj [(''message'', JStr [])])) (Some ''/tables/uf'')
               (Some \<lparr>api_status = Some 503,
                      api_message = JStr ''Request failed with status code 503'',
                      api_endpoint = Some ''/tables/uf''\<rparr>)),
        \<lparr>requests = [\<lparr>req_method = GET, url = ''/tables/uf'', params = None, body = None\<rparr>],
          console = [ApiErrorLog (Some 503) (JStr ''Request failed with status code 503'')]\<rparr>)"
    by (simp add: answers_unavailable_def n2)
  from f1 a f2 b show ?thesis
    by (intro conjI)
qed

lemma post_requests:
  "requests (snd (post up endpoint d ps w)) =
     requests w @ [\<lparr>req_method = POST, url = endpoint, params = ps, body = Some d\<rparr>]"
  by (simp add: post_def axios_request_def Let_def
           split: reply.splits prod.splits sum.splits error.splits)

lemma get_requests:
  "requests (snd (get up endpoint ps w)) =
     requests w @ [\<lparr>req_method = GET, url = endpoint, params = ps, body = None\<rparr>]"
  by (simp add: get_def axios_request_def Let_def
           split: reply.splits prod.splits sum.splits error.splits)

lemma post_resolved:
  assumes "up (requests w) \<lparr>req_method = POST, url = endpoint, params = ps, body = Some d\<rparr>
             = HttpReply status v"
    and "status < 400"
  shows "post up endpoint d ps w =
     (Inr v, w\<lparr>requests := requests w
                 @ [\<lparr>req_method = POST, url = endpoint, params = ps, body = Some d\<rparr>]\<rparr>)"
  using assms by (simp add: post_def axios_request_def Let_def validateStatus_def)

lemma get_resolved:
  assumes "up (requests w) \<lparr>req_method = GET, url = endpoint, params = ps, body = None\<rparr>
             = HttpReply status v"
    and "status < 400"
  shows "get up endpoint ps w =
     (Inr v, w\<lparr>requests := requests w
                 @ [\<lparr>req_method = GET, url = endpoint, params = ps, body = None\<rparr>]\<rparr>)"
  using assms by (simp add: get_def axios_request_def Let_def validateStatus_def)

subsection \<open>What the schemas accept and how they reject\<close>

lemma and_then_Inl_iff:
  "and_then m f = Inl e \<longleftrightarrow> m = Inl e \<or> (\<exists>a. m = Inr a \<and> f a = Inl e)"
  by (cases m) (simp_all add: and_then_def)

lemma z_string_Inr_iff: "z_string v = Inr s \<longleftrightarrow> v = JStr s"
  by (cases v) auto

lemma z_number_Inr_iff: "z_number v = Inr n \<longleftrightarrow> v = JNum n"
  by (cases v) auto

lemma z_boolean_Inr_iff: "z_boolean v = Inr b \<longleftrightarrow> v = JBool b"
  by (cases v) auto

lemma z_string_regex_Inr_iff: "z_string_regex re v = Inr s \<longleftrightarrow> v = JStr s \<and> regex_test re s"
  by (cases v) (auto simp: z_string_regex_def)

lemma z_enum_Inr_iff: "z_enum allowed v = Inr s \<longleftrightarrow> v = JStr s \<and> s \<in> set allowed"
  by (cases v) (auto simp: z_enum_def)

lemma z_optional_Inr_iff:
  "z_optional z v = Inr x \<longleftrightarrow> (v = JUndefined \<and> x = None) \<or> (v \<noteq> JUndefined \<and> (\<exists>y. z v = Inr y \<and> x = Some y))"
  by (auto simp: z_optional_def and_then_Inr_iff)

lemma z_optional_default_Inr_iff:
  "z_optional_default d z v = Inr x \<longleftrightarrow> (v = JUndefined \<and> x = d) \<or> (v \<noteq> JUndefined \<and> z v = Inr x)"
  by (auto simp: z_optional_default_def)

lemma z_all_Inr_iff: "z_all z vs = Inr xs \<longleftrightarrow> list_all2 (\<lambda>v x. z v = Inr x) vs xs"
  by (induction vs arbitrary: xs) (auto simp: and_then_Inr_iff list_all2_Cons1)

lemma z_array_Inr_iff:
  "z_array z v = Inr xs \<longleftrightarrow> (\<exists>vs. v = JArr vs \<and> list_all2 (\<lambda>v x. z v = Inr x) vs xs)"
  by (cases v) (auto simp: z_all_Inr_iff)

lemma z_object_Inr_iff: "z_object shape v = Inr a \<longleftrightarrow> (\<exists>kvs. v = JObj kvs \<and> shape kvs = Inr a)"
  by (cases v) (auto simp: z_object_def)

lemma rejects_only_string [simp]: "rejects_only z_string"
  unfolding rejects_only_def
proof (intro allI impI)
  fix v e assume "z_string v = Inl e" then show "e = InvalidParams" by (cases v) auto
qed

lemma rejects_only_number [simp]: "rejects_only z_number"
  unfolding rejects_only_def
proof (intro allI impI)
  fix v e assume "z_number v = Inl e" then show "e = InvalidParams" by (cases v) auto
qed

lemma rejects_only_boolean [simp]: "rejects_only z_boolean"
  unfolding rejects_only_def
proof (intro allI impI)
  fix v e assume "z_boolean v = Inl e" then show "e = InvalidParams" by (cases v) auto
qed

lemma rejects_onlyD: "rejects_only z \<Longrightarrow> z v = Inl e \<Longrightarrow> e = InvalidParams"
  by (simp add: rejects_only_def)

lemma rejects_only_regex [simp]: "rejects_only (z_string_regex re)"
  using rejects_onlyD [OF rejects_only_string]
  by (auto simp: rejects_only_def z_string_regex_def and_then_Inl_iff split: if_splits)

lemma rejects_only_enum [simp]: "rejects_only (z_enum allowed)"
  using rejects_onlyD [OF rejects_only_string]
  by (auto simp: rejects_only_def z_enum_def and_then_Inl_iff split: if_splits)

lemma z_all_Inl: "rejects_only z \<Longrightarrow> z_all z vs = Inl e \<Longrightarrow> e = InvalidParams"
  by (induction vs) (auto simp: and_then_Inl_iff dest: rejects_onlyD)

lemma rejects_only_array [simp]: "rejects_only z \<Longrightarrow> rejects_only (z_array z)"
  unfolding rejects_only_def
proof (intro allI impI)
  fix v e assume z: "\<forall>v e. z v = Inl e \<longrightarrow> e = InvalidParams" and "z_array z v = Inl e"
  then show "e = InvalidParams"
    using z_all_Inl [of z _ e] by (cases v) (auto simp: rejects_only_def)
qed

lemma rejects_only_optional [simp]: "rejects_only z \<Longrightarrow> rejects_only (z_optional z)"
  by (auto simp: rejects_only_def z_optional_def and_then_Inl_iff split: if_splits)

lemma rejects_only_optional_default [simp]: "rejects_only z \<Longrightarrow> rejects_only (z_optional_default d z)"
  by (auto simp: rejects_only_def z_optional_default_def split: if_splits)

lemma rejects_only_or [simp]: "rejects_only b \<Longrightarrow> rejects_only (z_or a b)"
  by (auto simp: rejects_only_def z_or_def split: sum.splits)

lemma rejects_only_object:
  assumes "\<And>kvs e. shape kvs = Inl e \<Longrightarrow> e = InvalidParams"
  shows "rejects_only (z_object shape)"
  unfolding rejects_only_def
proof (intro allI impI)
  fix v e assume "z_object shape v = Inl e"
  then show "e = InvalidParams" using assms by (cases v) (auto simp: z_object_def)
qed

lemma rejects_only_period [simp]: "rejects_only period_schema"
  unfolding period_schema_def
  by (rule rejects_only_object)
     (auto simp: and_then_Inl_iff dest: rejects_onlyD [OF rejects_only_regex])

lemma rejects_only_filter [simp]:
  "rejects_only n \<Longrightarrow> rejects_only vs \<Longrightarrow> rejects_only (filter_schema n vs)"
  unfolding filter_schema_def
  by (rule rejects_only_object) (auto simp: and_then_Inl_iff dest: rejects_onlyD)

lemma rejects_only_queryData [simp]: "rejects_only queryData_schema"
  unfolding queryData_schema_def
  by (rule rejects_only_object)
     (auto simp: and_then_Inl_iff dest!: rejects_onlyD [rotated])

lemma rejects_only_queryMunicipalitiesData [simp]: "rejects_only queryMunicipalitiesData_schema"
  unfolding queryMunicipalitiesData_schema_def
  by (rule rejects_only_object)
     (auto simp: and_then_Inl_iff dest!: rejects_onlyD [rotated])

lemma rejects_only_queryHistoricalData [simp]: "rejects_only queryHistoricalData_schema"
  unfolding queryHistoricalData_schema_def
  by (rule rejects_only_object)
     (auto simp: and_then_Inl_iff dest!: rejects_onlyD [rotated])

lemma tool_rejected:
  assumes "rejects_only schema" and "\<And>a. schema raw \<noteq> Inr a"
  shows "tool schema handler raw w = (Inl InvalidParams, w)"
proof (cases "schema raw")
  case (Inl e)
  with assms(1) have "e = InvalidParams" by (simp add: rejects_only_def)
  with Inl show ?thesis by (simp add: tool_def)
next
  case (Inr a)
  with assms(2) [of a] show ?thesis by simp
qed

subsection \<open>The period check\<close>

lemma period_schema_Inr_iff:
  "period_schema v = Inr p \<longleftrightarrow>
     (\<exists>kvs. v = JObj kvs
        \<and> get_prop kvs ''from'' = JStr (period_from p) \<and> regex_test dateFormatRegex (period_from p)
        \<and> get_prop kvs ''to'' = JStr (period_to p) \<and> regex_test dateFormatRegex (period_to p))"
  by (cases p) (auto simp: period_schema_def z_object_Inr_iff and_then_Inr_iff z_string_regex_Inr_iff)

lemma period_schema_matches:
  "period_schema (JObj pkvs) = Inr p \<Longrightarrow>
     matches_date (get_prop pkvs ''from'') \<and> matches_date (get_prop pkvs ''to'')"
  by (auto simp: period_schema_Inr_iff)

lemma queryData_schema_period:
  "queryData_schema (JObj kvs) = Inr a \<Longrightarrow> period_schema (get_prop kvs ''period'') = Inr (period a)"
  by (auto simp: queryData_schema_def z_object_def and_then_Inr_iff)

lemma queryMunicipalitiesData_schema_period:
  "queryMunicipalitiesData_schema (JObj kvs) = Inr a \<Longrightarrow> period_schema (get_prop kvs ''period'') = Inr (period a)"
  by (auto simp: queryMunicipalitiesData_schema_def z_object_def and_then_Inr_iff)

lemma queryHistoricalData_schema_period:
  "queryHistoricalData_schema (JObj kvs) = Inr a \<Longrightarrow> period_schema (get_prop kvs ''period'') = Inr (period a)"
  by (auto simp: queryHistoricalData_schema_def z_object_def and_then_Inr_iff)

text \<open>
  C2. A period whose \<open>from\<close> or \<open>to\<close> does not match \<^verbatim>\<open>^\d{4}-\d{2}$\<close> makes the call
  fail with no request issued, at both checks. Called directly (past the registry), each of
  queryData, queryMunicipalitiesData and queryHistoricalData tests the two strings itself
  and throws the error with the message \<open>period_message\<close>; the world is unchanged, so
  nothing was sent and nothing logged. Called as a tool with arguments whose
  \<^verbatim>\<open>period.from\<close> or \<^verbatim>\<open>period.to\<close> is not a matching string, the registry rejects the
  call and the handler does not run.
\<close>

theorem malformed_period_fails_before_any_request:
  "(\<not> regex_test dateFormatRegex (period_from p) \<or> \<not> regex_test dateFormatRegex (period_to p) \<longrightarrow>
      queryData up fl p md fs ds ms lang w = (Inl (Error period_message), w)
    \<and> queryMunicipalitiesData up fl p omd fs ds ms lang w = (Inl (Error period_message), w)
    \<and> queryHistoricalData up fl p omd hfs ds ms lang w = (Inl (Error period_message), w))
   \<and> (get_prop kvs ''period'' = JObj pkvs
      \<and> (\<not> matches_date (get_prop pkvs ''from'') \<or> \<not> matches_date (get_prop pkvs ''to'')) \<longrightarrow>
      tool_queryData up (JObj kvs) w = (Inl InvalidParams, w)
    \<and> tool_queryMunicipalitiesData up (JObj kvs) w = (Inl InvalidParams, w)
    \<and> tool_queryHistoricalData up (JObj kvs) w = (Inl InvalidParams, w))"
proof (intro conjI impI)
  assume "\<not> regex_test dateFormatRegex (period_from p) \<or> \<not> regex_test dateFormatRegex (period_to p)"
  then show "queryData up fl p md fs ds ms lang w = (Inl (Error period_message), w)"
    and "queryMunicipalitiesData up fl p omd fs ds ms lang w = (Inl (Error period_message), w)"
    and "queryHistoricalData up fl p omd hfs ds ms lang w = (Inl (Error period_message), w)"
    by (simp_all add: queryData_def queryMunicipalitiesData_def queryHistoricalData_def)
next
  assume h: "get_prop kvs ''period'' = JObj pkvs
      \<and> (\<not> matches_date (get_prop pkvs ''from'') \<or> \<not> matches_date (get_prop pkvs ''to''))"
  then have no: "\<And>q. period_schema (get_prop kvs ''period'') \<noteq> Inr q"
    using period_schema_matches [of pkvs] by auto
  show "tool_queryData up (JObj kvs) w = (Inl InvalidParams, w)"
    unfolding tool_queryData_def
    using no queryData_schema_period [of kvs] by (intro tool_rejected) auto
  show "tool_queryMunicipalitiesData up (JObj kvs) w = (Inl InvalidParams, w)"
    unfolding tool_queryMunicipalitiesData_def
    using no queryMunicipalitiesData_schema_period [of kvs] by (intro tool_rejected) auto
  show "tool_queryHistoricalData up (JObj kvs) w = (Inl InvalidParams, w)"
    unfolding tool_queryHistoricalData_def
    using no queryHistoricalData_schema_period [of kvs] by (intro tool_rejected) auto
qed

text \<open>
  An instance of each half: the client called directly with the period
  \<^verbatim>\<open>{from: "2023-1", to: "2023-12"}\<close>, and the tool queryHistoricalData called with
  \<^verbatim>\<open>to: "23-01"\<close>. Neither changes the world.
\<close>

theorem malformed_period_fails_before_any_request_witness:
  "\<not> regex_test dateFormatRegex ''2023-1''
   \<and> queryData (\<lambda>h r. HttpReply 200 JNull) ''export'' \<lparr>period_from = ''2023-1'', period_to = ''2023-12''\<rparr> False None [] [] None \<lparr>requests = [], console = []\<rparr>
       = (Inl (Error period_message), \<lparr>requests = [], console = []\<rparr>)
   \<and> \<not> matches_date (get_prop [(''from'', JStr ''2023-01''), (''to'', JStr ''23-01'')] ''to'')
   \<and> tool_queryHistoricalData (\<lambda>h r. HttpReply 200 JNull)
        (JObj [(''flow'', JStr ''export''),
               (''period'', JObj [(''from'', JStr ''2023-01''), (''to'', JStr ''23-01'')]),
               (''details'', JArr []), (''metrics'', JArr [])]) \<lparr>requests = [], console = []\<rparr>
       = (Inl InvalidParams, \<lparr>requests = [], console = []\<rparr>)"
proof -
  have a: "\<not> regex_test dateFormatRegex ''2023-1''" by code_simp
  have b: "\<not> matches_date (get_prop [(''from'', JStr ''2023-01''), (''to'', JStr ''23-01'')] ''to'')"
    by code_simp
  have c: "get_prop [(''flow'', JStr ''export''),
               (''period'', JObj [(''from'', JStr ''2023-01''), (''to'', JStr ''23-01'')]),
               (''details'', JArr []), (''metrics'', JArr [])] ''period'' = JObj [(''from'', JStr ''2023-01''), (''to'', JStr ''23-01'')]"
    by (simp add: get_prop_def)
  show ?thesis
    using a b c
      malformed_period_fails_before_any_request
        [where p = "\<lparr>period_from = ''2023-1'', period_to = ''2023-12''\<rparr>"
           and up = "\<lambda>h r. HttpReply 200 JNull" and fl = "''export''" and md = False
           and fs = None and ds = "[]" and ms = "[]" and lang = None
           and w = "\<lparr>requests = [], console = []\<rparr>"
           and kvs = "[(''flow'', JStr ''export''),
               (''period'', JObj [(''from'', JStr ''2023-01''), (''to'', JStr ''23-01'')]),
               (''details'', JArr []), (''metrics'', JArr [])]"
           and pkvs = "[(''from'', JStr ''2023-01''), (''to'', JStr ''23-01'')]"]
    by simp
qed

subsection \<open>The queryData tool\<close>

lemma json_text_requests: "requests (snd (json_text r)) = requests (snd r)"
  by (cases r) (auto simp: json_text_def split: sum.splits)

lemma queryData_schema_object:
  "queryData_schema raw = Inr a \<Longrightarrow> \<exists>kvs. raw = JObj kvs"
  by (auto simp: queryData_schema_def z_object_Inr_iff)

lemma queryData_schema_period_ok:
  assumes "queryData_schema raw = Inr a"
  shows "regex_test dateFormatRegex (period_from (period a))"
    and "regex_test dateFormatRegex (period_to (period a))"
  using assms queryData_schema_object [OF assms] queryData_schema_period [of _ a]
  by (auto simp: period_schema_Inr_iff)

lemma tool_queryData_accepted:
  assumes "queryData_schema raw = Inr a"
  shows "tool_queryData up raw w =
           json_text (post up ''/general''
             (query_body js_numbers (flow a) (monthDetail a) (period a) (or_empty (filters a))
                (details a) (metrics a))
             (Some [(''language'', JStr (language a))]) w)"
  using assms queryData_schema_period_ok [OF assms]
  by (simp add: tool_queryData_def tool_def queryData_def default_param_def)

lemma general_request_eq:
  "general_request a =
     \<lparr>req_method = POST, url = ''/general'', params = Some [(''language'', JStr (language a))],
      body = Some (query_body js_numbers (flow a) (monthDetail a) (period a) (or_empty (filters a))
                (details a) (metrics a))\<rparr>"
  by (simp add: general_request_def query_body_def js_period_def js_filters_def js_numbers_def
        js_strings_def or_empty_def)

lemma tool_queryData_requests:
  assumes "queryData_schema raw = Inr a"
  shows "requests (snd (tool_queryData up raw w)) = requests w @ [general_request a]"
  by (simp add: tool_queryData_accepted [OF assms] json_text_requests post_requests
        general_request_eq)

lemma tool_queryData_resolved:
  assumes "queryData_schema raw = Inr a"
    and "up (requests w) (general_request a) = HttpReply status envelope"
    and "status < 400"
  shows "tool_queryData up raw w =
           (Inr (JsonText envelope), w\<lparr>requests := requests w @ [general_request a]\<rparr>)"
  using assms(2,3)
  by (simp add: tool_queryData_accepted [OF assms(1)] general_request_eq post_resolved
        json_text_def)

lemma queryData_resolved:
  assumes "queryData_schema raw = Inr a"
    and "up (requests w) (general_request a) = HttpReply status envelope"
    and "status < 400"
  shows "queryData up (flow a) (period a) (monthDetail a) (Some (or_empty (filters a)))
           (details a) (metrics a) (Some (language a)) w =
           (Inr envelope, w\<lparr>requests := requests w @ [general_request a]\<rparr>)"
  using assms(2,3) queryData_schema_period_ok [OF assms(1)]
  by (simp add: queryData_def default_param_def general_request_eq post_resolved)

lemma queryData_schema_language:
  assumes "queryData_schema (JObj kvs) = Inr a"
  shows "if get_prop kvs ''language'' = JUndefined then language a = ''pt''
         else get_prop kvs ''language'' = JStr (language a)"
  using assms
  by (auto simp: queryData_schema_def z_object_def and_then_Inr_iff z_optional_default_Inr_iff
        z_string_Inr_iff)

text \<open>
  A call the schema accepts, and the example call of the README, which it rejects:
  \<^verbatim>\<open>"month"\<close> is not one of the eight values of \<^verbatim>\<open>details\<close>.
\<close>

lemma example_accepted:
  "queryData_schema
     (JObj [(''flow'', JStr ''export''),
            (''period'', JObj [(''from'', JStr ''2023-01''), (''to'', JStr ''2023-12'')]),
            (''monthDetail'', JBool False),
            (''filters'', JArr [JObj [(''filter'', JStr ''country''), (''values'', JArr [JNum 105])]]),
            (''details'', JArr [JStr ''country'', JStr ''state'']),
            (''metrics'', JArr [JStr ''metricFOB'', JStr ''metricKG''])])
   = Inr \<lparr>flow = ''export'', monthDetail = False,
           period = \<lparr>period_from = ''2023-01'', period_to = ''2023-12''\<rparr>,
           filters = Some [\<lparr>clause_filter = ''country'', clause_values = [105]\<rparr>],
           details = [''country'', ''state''], metrics = [''metricFOB'', ''metricKG''],
           language = ''pt''\<rparr>"
  by code_simp

lemma readme_example_rejected:
  "tool_queryData up
     (JObj [(''flow'', JStr ''export''),
            (''period'', JObj [(''from'', JStr ''2023-01''), (''to'', JStr ''2023-12'')]),
            (''monthDetail'', JBool False),
            (''filters'', JArr [JObj [(''filter'', JStr ''country''), (''values'', JArr [JNum 105])]]),
            (''details'', JArr [JStr ''country'', JStr ''month'']),
            (''metrics'', JArr [JStr ''metricFOB'', JStr ''metricKG''])]) w
   = (Inl InvalidParams, w)"
proof -
  have "queryData_schema
     (JObj [(''flow'', JStr ''export''),
            (''period'', JObj [(''from'', JStr ''2023-01''), (''to'', JStr ''2023-12'')]),
            (''monthDetail'', JBool False),
            (''filters'', JArr [JObj [(''filter'', JStr ''country''), (''values'', JArr [JNum 105])]]),
            (''details'', JArr [JStr ''country'', JStr ''month'']),
            (''metrics'', JArr [JStr ''metricFOB'', JStr ''metricKG''])]) = Inl InvalidParams"
    by code_simp
  then show ?thesis
    by (simp add: tool_queryData_def tool_def)
qed

text \<open>
  C1. A queryData call whose arguments the schema accepts, with the parsed arguments
  \<open>a\<close>, issues exactly one request, whatever the upstream answers: the POST to
  \<^verbatim>\<open>/general\<close> with the query parameter \<^verbatim>\<open>language\<close> and the body of the six fields
  flow, monthDetail, period, filters, details, metrics of \<open>a\<close> (\<open>general_request a\<close>; an
  omitted \<^verbatim>\<open>filters\<close> is sent as the empty array). The language is \<^verbatim>\<open>"pt"\<close> when the
  caller omits it and the caller's string otherwise. When the upstream answers with a
  status below 400, the client's queryData, as the handler calls it, returns that JSON
  envelope unmodified, and the result of the tool is the text of that same envelope.
\<close>

theorem validated_queryData_issues_one_post:
  assumes "queryData_schema raw = Inr a"
  shows "requests (snd (tool_queryData up raw w)) = requests w @ [general_request a]
       \<and> (\<forall>kvs. raw = JObj kvs \<longrightarrow>
            (if get_prop kvs ''language'' = JUndefined then language a = ''pt''
             else get_prop kvs ''language'' = JStr (language a)))
       \<and> (\<forall>status envelope.
            up (requests w) (general_request a) = HttpReply status envelope \<and> status < 400 \<longrightarrow>
            queryData up (flow a) (period a) (monthDetail a) (Some (or_empty (filters a)))
              (details a) (metrics a) (Some (language a)) w =
              (Inr envelope, w\<lparr>requests := requests w @ [general_request a]\<rparr>)
            \<and> tool_queryData up raw w =
              (Inr (JsonText envelope), w\<lparr>requests := requests w @ [general_request a]\<rparr>))"
  using tool_queryData_requests [OF assms] tool_queryData_resolved [OF assms]
    queryData_resolved [OF assms] queryData_schema_language [of _ a] assms
  by blast

theorem validated_queryData_issues_one_post_witness:
  "queryData_schema
     (JObj [(''flow'', JStr ''export''),
            (''period'', JObj [(''from'', JStr ''2023-01''), (''to'', JStr ''2023-12'')]),
            (''monthDetail'', JBool False),
            (''filters'', JArr [JObj [(''filter'', JStr ''country''), (''values'', JArr [JNum 105])]]),
            (''details'', JArr [JStr ''country'', JStr ''state'']),
            (''metrics'', JArr [JStr ''metricFOB'', JStr ''metricKG''])])
   = Inr \<lparr>flow = ''export'', monthDetail = False,
           period = \<lparr>period_from = ''2023-01'', period_to = ''2023-12''\<rparr>,
           filters = Some [\<lparr>clause_filter = ''country'', clause_values = [105]\<rparr>],
           details = [''country'', ''state''], metrics = [''metricFOB'', ''metricKG''],
           language = ''pt''\<rparr>
   \<and> tool_queryData (\<lambda>h r. HttpReply 200 (JObj [(''data'', JObj [(''list'', JArr [])]), (''success'', JBool True)]))
     (JObj [(''flow'', JStr ''export''),
            (''period'', JObj [(''from'', JStr ''2023-01''), (''to'', JStr ''2023-12'')]),
            (''monthDetail'', JBool False),
            (''filters'', JArr [JObj [(''filter'', JStr ''country''), (''values'', JArr [JNum 105])]]),
            (''details'', JArr [JStr ''country'', JStr ''state'']),
            (''metrics'', JArr [JStr ''metricFOB'', JStr ''metricKG''])])
     \<lparr>requests = [], console = []\<rparr>
   = (Inr (JsonText (JObj [(''data'', JObj [(''list'', JArr [])]), (''success'', JBool True)])),
      \<lparr>requests =
         [\<lparr>req_method = POST, url = ''/general'', params = Some [(''language'', JStr ''pt'')],
           body = Some (JObj
             [(''flow'', JStr ''export''),
              (''monthDetail'', JBool False),
              (''period'', JObj [(''from'', JStr ''2023-01''), (''to'', JStr ''2023-12'')]),
              (''filters'', JArr [JObj [(''filter'', JStr ''country''), (''values'', JArr [JNum 105])]]),
              (''details'', JArr [JStr ''country'', JStr ''state'']),
              (''metrics'', JArr [JStr ''metricFOB'', JStr ''metricKG''])])\<rparr>],
        console = []\<rparr>)"
  using example_accepted validated_queryData_issues_one_post [OF example_accepted,
      where up = "\<lambda>h r. HttpReply 200 (JObj [(''data'', JObj [(''list'', JArr [])]), (''success'', JBool True)])"
        and w = "\<lparr>requests = [], console = []\<rparr>"]
  by (simp add: general_request_def)

text \<open>
  C9. The same queryData call made twice, one after the other, with arguments the schema
  accepts, issues two requests, and they are the same value: same verb, path, query
  parameters and body, so the same bytes under any serialisation. This holds for every
  upstream and every earlier history: nothing of the first call, not its answer either,
  reaches the second.
\<close>

theorem repeated_queryData_sends_identical_requests:
  assumes "queryData_schema raw = Inr a"
  shows "requests (snd (tool_queryData up raw (snd (tool_queryData up raw w)))) =
           requests w @ [general_request a, general_request a]"
  by (simp add: tool_queryData_requests [OF assms])

theorem repeated_queryData_sends_identical_requests_witness:
  "queryData_schema
     (JObj [(''flow'', JStr ''export''),
            (''period'', JObj [(''from'', JStr ''2023-01''), (''to'', JStr ''2023-12'')]),
            (''monthDetail'', JBool False),
            (''filters'', JArr [JObj [(''filter'', JStr ''country''), (''values'', JArr [JNum 105])]]),
            (''details'', JArr [JStr ''country'', JStr ''state'']),
            (''metrics'', JArr [JStr ''metricFOB'', JStr ''metricKG''])])
   = Inr \<lparr>flow = ''export'', monthDetail = False,
           period = \<lparr>period_from = ''2023-01'', period_to = ''2023-12''\<rparr>,
           filters = Some [\<lparr>clause_filter = ''country'', clause_values = [105]\<rparr>],
           details = [''country'', ''state''], metrics = [''metricFOB'', ''metricKG''],
           language = ''pt''\<rparr>
   \<and> requests (snd (tool_queryData (\<lambda>h r. if h = [] then HttpReply 200 JNull else TransportFailure ''timeout of 30000ms exceeded'')
     (JObj [(''flow'', JStr ''export''),
            (''period'', JObj [(''from'', JStr ''2023-01''), (''to'', JStr ''2023-12'')]),
            (''monthDetail'', JBool False),
            (''filters'', JArr [JObj [(''filter'', JStr ''country''), (''values'', JArr [JNum 105])]]),
            (''details'', JArr [JStr ''country'', JStr ''state'']),
            (''metrics'', JArr [JStr ''metricFOB'', JStr ''metricKG''])])
       (snd (tool_queryData (\<lambda>h r. if h = [] then HttpReply 200 JNull else TransportFailure ''timeout of 30000ms exceeded'')
     (JObj [(''flow'', JStr ''export''),
            (''period'', JObj [(''from'', JStr ''2023-01''), (''to'', JStr ''2023-12'')]),
            (''monthDetail'', JBool False),
            (''filters'', JArr [JObj [(''filter'', JStr ''country''), (''values'', JArr [JNum 105])]]),
            (''details'', JArr [JStr ''country'', JStr ''state'']),
            (''metrics'', JArr [JStr ''metricFOB'', JStr ''metricKG''])])
     \<lparr>requests = [], console = []\<rparr>))))
   = [\<lparr>req_method = POST, url = ''/general'', params = Some [(''language'', JStr ''pt'')],
           body = Some (JObj
             [(''flow'', JStr ''export''),
              (''monthDetail'', JBool False),
              (''period'', JObj [(''from'', JStr ''2023-01''), (''to'', JStr ''2023-12'')]),
              (''filters'', JArr [JObj [(''filter'', JStr ''country''), (''values'', JArr [JNum 105])]]),
              (''details'', JArr [JStr ''country'', JStr ''state'']),
              (''metrics'', JArr [JStr ''metricFOB'', JStr ''metricKG''])])\<rparr>,
      \<lparr>req_method = POST, url = ''/general'', params = Some [(''language'', JStr ''pt'')],
           body = Some (JObj
             [(''flow'', JStr ''export''),
              (''monthDetail'', JBool False),
              (''period'', JObj [(''from'', JStr ''2023-01''), (''to'', JStr ''2023-12'')]),
              (''filters'', JArr [JObj [(''filter'', JStr ''country''), (''values'', JArr [JNum 105])]]),
              (''details'', JArr [JStr ''country'', JStr ''state'']),
              (''metrics'', JArr [JStr ''metricFOB'', JStr ''metricKG''])])\<rparr>]"
  using example_accepted repeated_queryData_sends_identical_requests [OF example_accepted,
      where up = "\<lambda>h r. if h = [] then HttpReply 200 JNull else TransportFailure ''timeout of 30000ms exceeded''"
        and w = "\<lparr>requests = [], console = []\<rparr>"]
  by (simp add: general_request_def)

subsection \<open>Periods that match the pattern\<close>







subsection \<open>The enumerations of queryData\<close>

lemma list_all2_memD: "list_all2 P xs ys \<Longrightarrow> x \<in> set xs \<Longrightarrow> \<exists>y. P x y"
  by (induction xs ys rule: list_all2_induct) auto

lemma queryData_schema_Inr_iff:
  "queryData_schema (JObj kvs) = Inr a \<longleftrightarrow>
     z_enum [''export'', ''import''] (get_prop kvs ''flow'') = Inr (flow a)
     \<and> z_boolean (get_prop kvs ''monthDetail'') = Inr (monthDetail a)
     \<and> period_schema (get_prop kvs ''period'') = Inr (period a)
     \<and> z_optional (z_array (filter_schema (z_enum filter_enum) (z_array z_number)))
           (get_prop kvs ''filters'') = Inr (filters a)
     \<and> z_array (z_enum filter_enum) (get_prop kvs ''details'') = Inr (details a)
     \<and> z_array (z_enum metric_enum) (get_prop kvs ''metrics'') = Inr (metrics a)
     \<and> z_optional_default ''pt'' z_string (get_prop kvs ''language'') = Inr (language a)"
  by (cases a) (auto simp: queryData_schema_def z_object_def and_then_Inr_iff)

lemma queryData_schema_flow:
  assumes "queryData_schema (JObj kvs) = Inr a"
  shows "get_prop kvs ''flow'' = JStr ''export'' \<or> get_prop kvs ''flow'' = JStr ''import''"
  using assms
  by (auto simp: queryData_schema_Inr_iff z_enum_Inr_iff)

lemma queryData_schema_filters:
  assumes "queryData_schema (JObj kvs) = Inr a"
    and "get_prop kvs ''filters'' = JArr cs" and "JObj ckvs \<in> set cs"
  shows "\<exists>s \<in> set filter_enum. get_prop ckvs ''filter'' = JStr s"
proof -
  from assms(1) have
    "z_optional (z_array (filter_schema (z_enum filter_enum) (z_array z_number)))
           (get_prop kvs ''filters'') = Inr (filters a)"
    by (simp add: queryData_schema_Inr_iff)
  with assms(2) obtain fs where
    "list_all2 (\<lambda>v x. filter_schema (z_enum filter_enum) (z_array z_number) v = Inr x) cs fs"
    by (auto simp: z_optional_Inr_iff z_all_Inr_iff)
  with assms(3) obtain c where
    "filter_schema (z_enum filter_enum) (z_array z_number) (JObj ckvs) = Inr c"
    by (blast dest: list_all2_memD)
  then show ?thesis
    by (auto simp: filter_schema_def z_object_def and_then_Inr_iff z_enum_Inr_iff)
qed

lemma queryData_schema_metrics:
  assumes "queryData_schema (JObj kvs) = Inr a"
    and "get_prop kvs ''metrics'' = JArr ms" and "m \<in> set ms"
  shows "\<exists>s \<in> set metric_enum. m = JStr s"
proof -
  from assms(1) have "z_array (z_enum metric_enum) (get_prop kvs ''metrics'') = Inr (metrics a)"
    by (simp add: queryData_schema_Inr_iff)
  with assms(2) have "list_all2 (\<lambda>v x. z_enum metric_enum v = Inr x) ms (metrics a)"
    by (simp add: z_all_Inr_iff)
  with assms(3) obtain x where "z_enum metric_enum m = Inr x"
    by (blast dest: list_all2_memD)
  then show ?thesis
    by (auto simp: z_enum_Inr_iff)
qed

lemma tool_queryData_rejected:
  assumes "\<And>a. queryData_schema raw \<noteq> Inr a"
  shows "tool_queryData up raw w = (Inl InvalidParams, w)"
  unfolding tool_queryData_def using assms by (intro tool_rejected) auto


text \<open>
  C3. A queryData tool call is rejected by the registry, with no request issued and the
  world unchanged, in each of these cases: its \<^verbatim>\<open>flow\<close> is not \<^verbatim>\<open>"export"\<close> or
  \<^verbatim>\<open>"import"\<close>; one of the entries of its \<^verbatim>\<open>filters\<close> has a \<^verbatim>\<open>filter\<close> that is not
  one of the eight names; one of the entries of its \<^verbatim>\<open>metrics\<close> is not one of the six
  metric names.
\<close>

theorem values_outside_enums_rejected:
  "(get_prop kvs ''flow'' \<notin> {JStr ''export'', JStr ''import''} \<longrightarrow>
      tool_queryData up (JObj kvs) w = (Inl InvalidParams, w))
   \<and> (get_prop kvs ''filters'' = JArr cs \<and> JObj ckvs \<in> set cs
      \<and> get_prop ckvs ''filter'' \<notin> JStr ` {''country'', ''state'', ''economicBlock'', ''section'',
            ''chapter'', ''position'', ''subposition'', ''ncm''} \<longrightarrow>
      tool_queryData up (JObj kvs) w = (Inl InvalidParams, w))
   \<and> (get_prop kvs ''metrics'' = JArr ms \<and> m \<in> set ms
      \<and> m \<notin> JStr ` {''metricFOB'', ''metricKG'', ''metricStatistic'', ''metricFreight'',
            ''metricInsurance'', ''metricCIF''} \<longrightarrow>
      tool_queryData up (JObj kvs) w = (Inl InvalidParams, w))"
proof (intro conjI impI)
  assume h: "get_prop kvs ''flow'' \<notin> {JStr ''export'', JStr ''import''}"
  have "queryData_schema (JObj kvs) \<noteq> Inr a" for a
    using queryData_schema_flow [of kvs a] h by auto
  then show "tool_queryData up (JObj kvs) w = (Inl InvalidParams, w)"
    by (rule tool_queryData_rejected)
next
  assume h: "get_prop kvs ''filters'' = JArr cs \<and> JObj ckvs \<in> set cs
      \<and> get_prop ckvs ''filter'' \<notin> JStr ` {''country'', ''state'', ''economicBlock'', ''section'',
            ''chapter'', ''position'', ''subposition'', ''ncm''}"
  have e: "set filter_enum = {''country'', ''state'', ''economicBlock'', ''section'',
            ''chapter'', ''position'', ''subposition'', ''ncm''}"
    by (simp add: filter_enum_def)
  note h' = h [folded e]
  have "queryData_schema (JObj kvs) \<noteq> Inr a" for a
  proof
    assume "queryData_schema (JObj kvs) = Inr a"
    from queryData_schema_filters [OF this conjunct1 [OF h'] conjunct1 [OF conjunct2 [OF h']]]
    obtain s where "s \<in> set filter_enum" and "get_prop ckvs ''filter'' = JStr s"
      by (elim bexE)
    then have "get_prop ckvs ''filter'' \<in> JStr ` set filter_enum"
      by (simp only: imageI)
    with conjunct2 [OF conjunct2 [OF h']] show False
      by (rule notE)
  qed
  then show "tool_queryData up (JObj kvs) w = (Inl InvalidParams, w)"
    by (rule tool_queryData_rejected)
next
  assume h: "get_prop kvs ''metrics'' = JArr ms \<and> m \<in> set ms
      \<and> m \<notin> JStr ` {''metricFOB'', ''metricKG'', ''metricStatistic'', ''metricFreight'',
            ''metricInsurance'', ''metricCIF''}"
  have e: "set metric_enum = {''metricFOB'', ''metricKG'', ''metricStatistic'', ''metricFreight'',
            ''metricInsurance'', ''metricCIF''}"
    by (simp add: metric_enum_def)
  note h' = h [folded e]
  have "queryData_schema (JObj kvs) \<noteq> Inr a" for a
  proof
    assume "queryData_schema (JObj kvs) = Inr a"
    from queryData_schema_metrics [OF this conjunct1 [OF h'] conjunct1 [OF conjunct2 [OF h']]]
    obtain s where "s \<in> set metric_enum" and "m = JStr s"
      by (elim bexE)
    then have "m \<in> JStr ` set metric_enum"
      by (simp only: imageI)
    with conjunct2 [OF conjunct2 [OF h']] show False
      by (rule notE)
  qed
  then show "tool_queryData up (JObj kvs) w = (Inl InvalidParams, w)"
    by (rule tool_queryData_rejected)
qed


text \<open>
  One call for each case: \<^verbatim>\<open>flow: "reexport"\<close>, a filter on \<^verbatim>\<open>"city"\<close>, and the metric
  \<^verbatim>\<open>"metricTax"\<close>; the rest of each call is valid.
\<close>

theorem values_outside_enums_rejected_witness:
  "get_prop [(''flow'', JStr ''reexport''),
             (''period'', JObj [(''from'', JStr ''2023-01''), (''to'', JStr ''2023-12'')]),
             (''monthDetail'', JBool False),
             (''details'', JArr [JStr ''country'']),
             (''metrics'', JArr [JStr ''metricFOB''])] ''flow''
     \<notin> {JStr ''export'', JStr ''import''}
   \<and> tool_queryData (\<lambda>h r. HttpReply 200 JNull)
        (JObj [(''flow'', JStr ''reexport''),
               (''period'', JObj [(''from'', JStr ''2023-01''), (''to'', JStr ''2023-12'')]),
               (''monthDetail'', JBool False),
               (''details'', JArr [JStr ''country'']),
               (''metrics'', JArr [JStr ''metricFOB''])])
        \<lparr>requests = [], console = []\<rparr>
       = (Inl InvalidParams, \<lparr>requests = [], console = []\<rparr>)
   \<and> get_prop [(''filter'', JStr ''city''), (''values'', JArr [JNum 5300108])] ''filter''
     \<notin> JStr ` {''country'', ''state'', ''economicBlock'', ''section'',
            ''chapter'', ''position'', ''subposition'', ''ncm''}
   \<and> tool_queryData (\<lambda>h r. HttpReply 200 JNull)
        (JObj [(''flow'', JStr ''export''),
               (''period'', JObj [(''from'', JStr ''2023-01''), (''to'', JStr ''2023-12'')]),
               (''monthDetail'', JBool False),
               (''filters'', JArr [JObj [(''filter'', JStr ''city''),
                                         (''values'', JArr [JNum 5300108])]]),
               (''details'', JArr [JStr ''country'']),
               (''metrics'', JArr [JStr ''metricFOB''])])
        \<lparr>requests = [], console = []\<rparr>
       = (Inl InvalidParams, \<lparr>requests = [], console = []\<rparr>)
   \<and> JStr ''metricTax''
     \<notin> JStr ` {''metricFOB'', ''metricKG'', ''metricStatistic'', ''metricFreight'',
            ''metricInsurance'', ''metricCIF''}
   \<and> tool_queryData (\<lambda>h r. HttpReply 200 JNull)
        (JObj [(''flow'', JStr ''export''),
               (''period'', JObj [(''from'', JStr ''2023-01''), (''to'', JStr ''2023-12'')]),
               (''monthDetail'', JBool False),
               (''details'', JArr [JStr ''country'']),
               (''metrics'', JArr [JStr ''metricFOB'', JStr ''metricTax''])])
        \<lparr>requests = [], console = []\<rparr>
       = (Inl InvalidParams, \<lparr>requests = [], console = []\<rparr>)"
proof -
  let ?up = "\<lambda>(h :: request list) (r :: request). HttpReply 200 JNull"
  let ?w = "\<lparr>requests = [], console = []\<rparr>"
  let ?k1 = "[(''flow'', JStr ''reexport''),
             (''period'', JObj [(''from'', JStr ''2023-01''), (''to'', JStr ''2023-12'')]),
             (''monthDetail'', JBool False),
             (''details'', JArr [JStr ''country'']),
             (''metrics'', JArr [JStr ''metricFOB''])]"
  let ?c = "[(''filter'', JStr ''city''), (''values'', JArr [JNum 5300108])]"
  let ?k2 = "[(''flow'', JStr ''export''),
               (''period'', JObj [(''from'', JStr ''2023-01''), (''to'', JStr ''2023-12'')]),
               (''monthDetail'', JBool False),
               (''filters'', JArr [JObj ?c]),
               (''details'', JArr [JStr ''country'']),
               (''metrics'', JArr [JStr ''metricFOB''])]"
  let ?k3 = "[(''flow'', JStr ''export''),
               (''period'', JObj [(''from'', JStr ''2023-01''), (''to'', JStr ''2023-12'')]),
               (''monthDetail'', JBool False),
               (''details'', JArr [JStr ''country'']),
               (''metrics'', JArr [JStr ''metricFOB'', JStr ''metricTax''])]"
  have a: "get_prop ?k1 ''flow'' \<notin> {JStr ''export'', JStr ''import''}"
    by (simp add: get_prop_def)
  have b1: "get_prop ?k2 ''filters'' = JArr [JObj ?c]"
    by (simp add: get_prop_def)
  have b2: "JObj ?c \<in> set [JObj ?c]"
    by simp
  have b3: "get_prop ?c ''filter'' \<notin> JStr ` {''country'', ''state'', ''economicBlock'',
              ''section'', ''chapter'', ''position'', ''subposition'', ''ncm''}"
    by (simp add: get_prop_def)
  have c1: "get_prop ?k3 ''metrics'' = JArr [JStr ''metricFOB'', JStr ''metricTax'']"
    by (simp add: get_prop_def)
  have c2: "JStr ''metricTax'' \<in> set [JStr ''metricFOB'', JStr ''metricTax'']"
    by simp
  have c3: "JStr ''metricTax'' \<notin> JStr ` {''metricFOB'', ''metricKG'', ''metricStatistic'',
              ''metricFreight'', ''metricInsurance'', ''metricCIF''}"
    by simp
  have r1: "tool_queryData ?up (JObj ?k1) ?w = (Inl InvalidParams, ?w)"
    by (rule values_outside_enums_rejected
          [where kvs = ?k1 and up = ?up and w = ?w, THEN conjunct1, THEN mp, OF a])
  have r2: "tool_queryData ?up (JObj ?k2) ?w = (Inl InvalidParams, ?w)"
    by (rule values_outside_enums_rejected
          [where kvs = ?k2 and cs = "[JObj ?c]" and ckvs = ?c and up = ?up and w = ?w,
           THEN conjunct2, THEN conjunct1, THEN mp, OF conjI [OF b1 conjI [OF b2 b3]]])
  have r3: "tool_queryData ?up (JObj ?k3) ?w = (Inl InvalidParams, ?w)"
    by (rule values_outside_enums_rejected
          [where kvs = ?k3 and ms = "[JStr ''metricFOB'', JStr ''metricTax'']"
             and m = "JStr ''metricTax''" and up = ?up and w = ?w,
           THEN conjunct2, THEN conjunct2, THEN mp, OF conjI [OF c1 conjI [OF c2 c3]]])
  from a r1 b3 r2 c3 r3 show ?thesis
    by (intro conjI)
qed

subsection \<open>getFilterValues\<close>

lemma getFilterValues_resolved:
  assumes "up (requests w) (filter_values_request f lang) = HttpReply status response"
    and "status < 400"
  shows "getFilterValues up f lang w =
           (and_then (response_data response) index0,
            w\<lparr>requests := requests w @ [filter_values_request f lang]\<rparr>)"
  using assms
  by (simp add: getFilterValues_def filter_values_request_def default_param_def get_resolved)

lemma tool_getFilterValues_accepted:
  assumes "getFilterValues_schema raw = Inr a"
  shows "tool_getFilterValues up raw w =
           json_text (getFilterValues up (fv_filter a) (fv_language a) w)"
  using assms by (simp add: tool_getFilterValues_def tool_def)

text \<open>
  C4. When the upstream answers the request of getFilterValues with a status below 400 and
  an envelope whose \<^verbatim>\<open>data\<close> is an array that begins with an array, the result is
  exactly that first inner array: one level is unwrapped, and the later entries of
  \<^verbatim>\<open>data\<close>, whatever they are, play no part.
\<close>

theorem getFilterValues_returns_first_inner_array:
  assumes "up (requests w) (filter_values_request f lang) = HttpReply status (JObj envelope)"
    and "status < 400"
    and "get_prop envelope ''data'' = JArr (JArr inner # rest)"
  shows "getFilterValues up f lang w =
           (Inr (JArr inner), w\<lparr>requests := requests w @ [filter_values_request f lang]\<rparr>)"
  using assms getFilterValues_resolved [of up w f lang status "JObj envelope"] by simp

text \<open>
  The instance of the specification: \<^verbatim>\<open>data = [[{id:"1",text:"Brazil"}], [...]]\<close>.
\<close>

theorem getFilterValues_returns_first_inner_array_witness:
  "(200::nat) < 400
   \<and> get_prop [(''data'', JArr [JArr [JObj [(''id'', JStr ''1''), (''text'', JStr ''Brazil'')]],
                                 JArr [JObj [(''id'', JStr ''2''), (''text'', JStr ''Chile'')]]]),
                (''success'', JBool True)] ''data''
       = JArr (JArr [JObj [(''id'', JStr ''1''), (''text'', JStr ''Brazil'')]]
               # [JArr [JObj [(''id'', JStr ''2''), (''text'', JStr ''Chile'')]]])
   \<and> getFilterValues
        (\<lambda>h r. HttpReply 200 (JObj
           [(''data'', JArr [JArr [JObj [(''id'', JStr ''1''), (''text'', JStr ''Brazil'')]],
                             JArr [JObj [(''id'', JStr ''2''), (''text'', JStr ''Chile'')]]]),
            (''success'', JBool True)]))
        ''country'' None \<lparr>requests = [], console = []\<rparr>
     = (Inr (JArr [JObj [(''id'', JStr ''1''), (''text'', JStr ''Brazil'')]]),
        \<lparr>requests = [\<lparr>req_method = GET, url = ''/general/filters/country'',
                       params = Some [(''language'', JStr ''pt'')], body = None\<rparr>],
          console = []\<rparr>)"
proof -
  let ?env = "[(''data'', JArr [JArr [JObj [(''id'', JStr ''1''), (''text'', JStr ''Brazil'')]],
                                 JArr [JObj [(''id'', JStr ''2''), (''text'', JStr ''Chile'')]]]),
                (''success'', JBool True)]"
  have a: "(\<lambda>(h :: request list) (r :: request). HttpReply 200 (JObj ?env))
             (requests \<lparr>requests = [], console = []\<rparr>) (filter_values_request ''country'' None)
           = HttpReply 200 (JObj ?env)"
    by simp
  have b: "(200::nat) < 400"
    by simp
  have c: "get_prop ?env ''data''
       = JArr (JArr [JObj [(''id'', JStr ''1''), (''text'', JStr ''Brazil'')]]
               # [JArr [JObj [(''id'', JStr ''2''), (''text'', JStr ''Chile'')]]])"
    by (simp add: get_prop_def)
  from a b c
    getFilterValues_returns_first_inner_array
      [where up = "\<lambda>h r. HttpReply 200 (JObj ?env)" and w = "\<lparr>requests = [], console = []\<rparr>"
         and f = "''country''" and lang = None and status = 200 and envelope = ?env
         and inner = "[JObj [(''id'', JStr ''1''), (''text'', JStr ''Brazil'')]]"
         and rest = "[JArr [JObj [(''id'', JStr ''2''), (''text'', JStr ''Chile'')]]]"]
  show ?thesis
    by (simp add: filter_values_request_def)
qed

text \<open>
  C10. When the upstream answers the request of getFilterValues with a status below 400 and
  an envelope whose \<^verbatim>\<open>data\<close> is the empty array, the operation returns normally and
  its value is \<^verbatim>\<open>undefined\<close>: it is not an error and it is not an empty list. The
  tool, for arguments that parse to the same filter and language, then hands
  \<^verbatim>\<open>undefined\<close> to the serialiser and also ends without an error.
\<close>

theorem getFilterValues_empty_data_gives_undefined:
  assumes "up (requests w) (filter_values_request f lang) = HttpReply status (JObj envelope)"
    and "status < 400"
    and "get_prop envelope ''data'' = JArr []"
  shows "getFilterValues up f lang w =
           (Inr JUndefined, w\<lparr>requests := requests w @ [filter_values_request f lang]\<rparr>)
       \<and> (\<forall>raw. getFilterValues_schema raw = Inr \<lparr>fv_filter = f, fv_language = lang\<rparr> \<longrightarrow>
            tool_getFilterValues up raw w =
              (Inr (JsonText JUndefined),
               w\<lparr>requests := requests w @ [filter_values_request f lang]\<rparr>))"
proof -
  have r: "getFilterValues up f lang w =
           (Inr JUndefined, w\<lparr>requests := requests w @ [filter_values_request f lang]\<rparr>)"
    using assms getFilterValues_resolved [of up w f lang status "JObj envelope"] by simp
  then show ?thesis
    by (simp add: tool_getFilterValues_accepted json_text_def)
qed

theorem getFilterValues_empty_data_gives_undefined_witness:
  "(200::nat) < 400
   \<and> get_prop [(''data'', JArr []), (''success'', JBool True)] ''data'' = JArr []
   \<and> getFilterValues_schema (JObj [(''filter'', JStr ''country'')])
       = Inr \<lparr>fv_filter = ''country'', fv_language = None\<rparr>
   \<and> getFilterValues
        (\<lambda>h r. HttpReply 200 (JObj [(''data'', JArr []), (''success'', JBool True)]))
        ''country'' None \<lparr>requests = [], console = []\<rparr>
     = (Inr JUndefined,
        \<lparr>requests = [\<lparr>req_method = GET, url = ''/general/filters/country'',
                       params = Some [(''language'', JStr ''pt'')], body = None\<rparr>],
          console = []\<rparr>)
   \<and> tool_getFilterValues
        (\<lambda>h r. HttpReply 200 (JObj [(''data'', JArr []), (''success'', JBool True)]))
        (JObj [(''filter'', JStr ''country'')]) \<lparr>requests = [], console = []\<rparr>
     = (Inr (JsonText JUndefined),
        \<lparr>requests = [\<lparr>req_method = GET, url = ''/general/filters/country'',
                       params = Some [(''language'', JStr ''pt'')], body = None\<rparr>],
          console = []\<rparr>)"
proof -
  let ?env = "[(''data'', JArr []), (''success'', JBool True)]"
  have a: "(\<lambda>(h :: request list) (r :: request). HttpReply 200 (JObj ?env))
             (requests \<lparr>requests = [], console = []\<rparr>) (filter_values_request ''country'' None)
           = HttpReply 200 (JObj ?env)"
    by simp
  have b: "(200::nat) < 400"
    by simp
  have c: "get_prop ?env ''data'' = JArr []"
    by (simp add: get_prop_def)
  have d: "getFilterValues_schema (JObj [(''filter'', JStr ''country'')])
       = Inr \<lparr>fv_filter = ''country'', fv_language = None\<rparr>"
    by (simp add: getFilterValues_schema_def z_object_def get_prop_def z_optional_def)
  from a b c d
    getFilterValues_empty_data_gives_undefined
      [where up = "\<lambda>h r. HttpReply 200 (JObj ?env)" and w = "\<lparr>requests = [], console = []\<rparr>"
         and f = "''country''" and lang = None and status = 200 and envelope = ?env]
  show ?thesis
    by (simp add: filter_values_request_def)
qed

subsection \<open>getAuxiliaryTable\<close>

lemma getAuxiliaryTable_requests:
  "requests (snd (getAuxiliaryTable up t s pg sz w)) =
     requests w @ [\<lparr>req_method = GET, url = ''/auxiliary/'' @ t,
                    params = Some [(''search'', js_opt_string s),
                                   (''page'', JNum (default_param 1 pg)),
                                   (''pageSize'', JNum (default_param 100 sz))],
                    body = None\<rparr>]"
  by (simp add: getAuxiliaryTable_def get_requests)

lemma getAuxiliaryTable_schema_table_only:
  assumes "get_prop kvs ''table'' = JStr t" and "get_prop kvs ''search'' = JUndefined"
    and "get_prop kvs ''page'' = JUndefined" and "get_prop kvs ''pageSize'' = JUndefined"
  shows "getAuxiliaryTable_schema (JObj kvs) =
           Inr \<lparr>aux_table = t, aux_search = None, aux_page = None, aux_pageSize = None\<rparr>"
  using assms by (simp add: getAuxiliaryTable_schema_def z_object_def z_optional_def)

text \<open>
  C6. A getAuxiliaryTable tool call that gives the table and omits \<^verbatim>\<open>search\<close>,
  \<^verbatim>\<open>page\<close> and \<^verbatim>\<open>pageSize\<close> issues one GET to \<^verbatim>\<open>/auxiliary/{table}\<close> whose
  parameters are \<^verbatim>\<open>{search: undefined, page: 1, pageSize: 100}\<close>; the query it carries,
  once the absent \<^verbatim>\<open>search\<close> is left out, is \<^verbatim>\<open>page=1\<close> and \<^verbatim>\<open>pageSize=100\<close>.
\<close>

theorem auxiliary_table_default_paging:
  assumes "get_prop kvs ''table'' = JStr t" and "get_prop kvs ''search'' = JUndefined"
    and "get_prop kvs ''page'' = JUndefined" and "get_prop kvs ''pageSize'' = JUndefined"
  shows "requests (snd (tool_getAuxiliaryTable up (JObj kvs) w)) =
           requests w @ [\<lparr>req_method = GET, url = ''/auxiliary/'' @ t,
                          params = Some [(''search'', JUndefined), (''page'', JNum 1),
                                         (''pageSize'', JNum 100)],
                          body = None\<rparr>]
       \<and> effective_params (last (requests (snd (tool_getAuxiliaryTable up (JObj kvs) w)))) =
           [(''page'', JNum 1), (''pageSize'', JNum 100)]"
proof -
  have "requests (snd (tool_getAuxiliaryTable up (JObj kvs) w)) =
           requests w @ [\<lparr>req_method = GET, url = ''/auxiliary/'' @ t,
                          params = Some [(''search'', JUndefined), (''page'', JNum 1),
                                         (''pageSize'', JNum 100)],
                          body = None\<rparr>]"
    by (simp add: tool_getAuxiliaryTable_def tool_def getAuxiliaryTable_schema_table_only [OF assms]
          json_text_requests getAuxiliaryTable_requests js_opt_string_def default_param_def)
  then show ?thesis
    by (simp add: effective_params_def)
qed

text \<open>The instance of the specification: only \<^verbatim>\<open>table = "countries"\<close>.\<close>

theorem auxiliary_table_default_paging_witness:
  "get_prop [(''table'', JStr ''countries'')] ''table'' = JStr ''countries''
   \<and> get_prop [(''table'', JStr ''countries'')] ''search'' = JUndefined
   \<and> get_prop [(''table'', JStr ''countries'')] ''page'' = JUndefined
   \<and> get_prop [(''table'', JStr ''countries'')] ''pageSize'' = JUndefined
   \<and> requests (snd (tool_getAuxiliaryTable (\<lambda>h r. HttpReply 200 JNull)
         (JObj [(''table'', JStr ''countries'')]) \<lparr>requests = [], console = []\<rparr>))
       = [\<lparr>req_method = GET, url = ''/auxiliary/countries'',
            params = Some [(''search'', JUndefined), (''page'', JNum 1), (''pageSize'', JNum 100)],
            body = None\<rparr>]
   \<and> effective_params (last (requests (snd (tool_getAuxiliaryTable (\<lambda>h r. HttpReply 200 JNull)
         (JObj [(''table'', JStr ''countries'')]) \<lparr>requests = [], console = []\<rparr>))))
       = [(''page'', JNum 1), (''pageSize'', JNum 100)]"
proof -
  let ?k = "[(''table'', JStr ''countries'')]"
  have a: "get_prop ?k ''table'' = JStr ''countries''" by (simp add: get_prop_def)
  have b: "get_prop ?k ''search'' = JUndefined" by (simp add: get_prop_def)
  have c: "get_prop ?k ''page'' = JUndefined" by (simp add: get_prop_def)
  have d: "get_prop ?k ''pageSize'' = JUndefined" by (simp add: get_prop_def)
  from a b c d
    auxiliary_table_default_paging [OF a b c d, where up = "\<lambda>h r. HttpReply 200 JNull"
      and w = "\<lparr>requests = [], console = []\<rparr>"]
  show ?thesis
    by (simp add: effective_params_def)
qed

subsection \<open>getEconomicBlocks, getHarmonizedSystem and getNBM\<close>

lemma getEconomicBlocks_schema_Inr_iff:
  "getEconomicBlocks_schema (JObj kvs) = Inr a \<longleftrightarrow>
     z_optional_default ''pt'' z_string (get_prop kvs ''language'') = Inr (eb_language a)
     \<and> z_optional z_string (get_prop kvs ''add'') = Inr (eb_add a)
     \<and> z_optional z_string (get_prop kvs ''search'') = Inr (eb_search a)"
  by (cases a) (auto simp: getEconomicBlocks_schema_def z_object_def and_then_Inr_iff)

lemma getHarmonizedSystem_schema_Inr_iff:
  "getHarmonizedSystem_schema (JObj kvs) = Inr a \<longleftrightarrow>
     z_optional_default ''pt'' z_string (get_prop kvs ''language'') = Inr (hs_language a)
     \<and> z_optional_default 1 z_number (get_prop kvs ''page'') = Inr (hs_page a)
     \<and> z_optional_default 10 z_number (get_prop kvs ''perPage'') = Inr (hs_perPage a)
     \<and> z_optional z_string (get_prop kvs ''add'') = Inr (hs_add a)"
  by (cases a) (auto simp: getHarmonizedSystem_schema_def z_object_def and_then_Inr_iff)

lemma getNBM_schema_Inr_iff:
  "getNBM_schema (JObj kvs) = Inr a \<longleftrightarrow>
     z_optional_default ''pt'' z_string (get_prop kvs ''language'') = Inr (nbm_language a)
     \<and> z_optional_default 1 z_number (get_prop kvs ''page'') = Inr (nbm_page a)
     \<and> z_optional_default 5 z_number (get_prop kvs ''perPage'') = Inr (nbm_perPage a)
     \<and> z_optional z_string (get_prop kvs ''add'') = Inr (nbm_add a)
     \<and> z_optional z_string (get_prop kvs ''search'') = Inr (nbm_search a)"
  by (cases a) (auto simp: getNBM_schema_def z_object_def and_then_Inr_iff)

lemma tool_getEconomicBlocks_requests:
  assumes "getEconomicBlocks_schema raw = Inr a"
  shows "requests (snd (tool_getEconomicBlocks up raw w)) =
     requests w @ [\<lparr>req_method = GET, url = ''/tables/economic-blocks'',
        params = Some [(''language'', JStr (eb_language a)), (''add'', js_opt_string (eb_add a)),
                       (''search'', js_opt_string (eb_search a))],
        body = None\<rparr>]"
  using assms
  by (simp add: tool_getEconomicBlocks_def tool_def json_text_requests getEconomicBlocks_def
        get_requests)

lemma tool_getHarmonizedSystem_requests:
  assumes "getHarmonizedSystem_schema raw = Inr a"
  shows "requests (snd (tool_getHarmonizedSystem up raw w)) =
     requests w @ [\<lparr>req_method = GET, url = ''/tables/hs'',
        params = Some [(''language'', JStr (hs_language a)), (''page'', JNum (hs_page a)),
                       (''perPage'', JNum (hs_perPage a)), (''add'', js_opt_string (hs_add a))],
        body = None\<rparr>]"
  using assms
  by (simp add: tool_getHarmonizedSystem_def tool_def json_text_requests getHarmonizedSystem_def
        get_requests)

lemma tool_getNBM_requests:
  assumes "getNBM_schema raw = Inr a"
  shows "requests (snd (tool_getNBM up raw w)) =
     requests w @ [\<lparr>req_method = GET, url = ''/tables/nbm'',
        params = Some [(''language'', JStr (nbm_language a)), (''page'', JNum (nbm_page a)),
                       (''perPage'', JNum (nbm_perPage a)), (''add'', js_opt_string (nbm_add a)),
                       (''search'', js_opt_string (nbm_search a))],
        body = None\<rparr>]"
  using assms
  by (simp add: tool_getNBM_def tool_def json_text_requests getNBM_def get_requests)

text \<open>
  Read as it stands, C7 gives getEconomicBlocks the default \<^verbatim>\<open>page = 1\<close>. The tool has
  no \<^verbatim>\<open>page\<close> and no \<^verbatim>\<open>perPage\<close> parameter: called with \<^verbatim>\<open>{}\<close>, the query it sends
  is \<^verbatim>\<open>language=pt\<close> and nothing else.
\<close>

theorem getEconomicBlocks_sends_no_page:
  "effective_params (last (requests (snd (tool_getEconomicBlocks answers_ok (JObj [])
       \<lparr>requests = [], console = []\<rparr>)))) = [(''language'', JStr ''pt'')]
   \<and> (''page'', JNum 1) \<notin> set (effective_params (last (requests (snd
       (tool_getEconomicBlocks answers_ok (JObj []) \<lparr>requests = [], console = []\<rparr>)))))"
proof -
  have "getEconomicBlocks_schema (JObj [])
          = Inr \<lparr>eb_language = ''pt'', eb_add = None, eb_search = None\<rparr>"
    by (simp add: getEconomicBlocks_schema_Inr_iff get_prop_def z_optional_def
          z_optional_default_def)
  from tool_getEconomicBlocks_requests [OF this, of answers_ok "\<lparr>requests = [], console = []\<rparr>"]
  show ?thesis
    by (simp add: effective_params_def js_opt_string_def)
qed

text \<open>
  C7, amended. Each of the tools getEconomicBlocks, getHarmonizedSystem and getNBM accepts a
  call that gives none of its parameters, and then sends the registered defaults:
  getEconomicBlocks (parameters \<^verbatim>\<open>language\<close>, \<^verbatim>\<open>add\<close>, \<^verbatim>\<open>search\<close>) sends
  \<^verbatim>\<open>language = "pt"\<close>; getHarmonizedSystem (\<^verbatim>\<open>language\<close>, \<^verbatim>\<open>page\<close>, \<^verbatim>\<open>perPage\<close>,
  \<^verbatim>\<open>add\<close>) sends \<^verbatim>\<open>language = "pt"\<close>, \<^verbatim>\<open>page = 1\<close>, \<^verbatim>\<open>perPage = 10\<close>; getNBM
  (\<^verbatim>\<open>language\<close>, \<^verbatim>\<open>page\<close>, \<^verbatim>\<open>perPage\<close>, \<^verbatim>\<open>add\<close>, \<^verbatim>\<open>search\<close>) sends
  \<^verbatim>\<open>language = "pt"\<close>, \<^verbatim>\<open>page = 1\<close>, \<^verbatim>\<open>perPage = 5\<close>. The parameters \<^verbatim>\<open>add\<close> and
  \<^verbatim>\<open>search\<close> have no default and stay absent. In every accepted call, each of
  \<^verbatim>\<open>language\<close>, \<^verbatim>\<open>page\<close> and \<^verbatim>\<open>perPage\<close> that is omitted by itself takes the same
  default.
\<close>

theorem table_tools_defaults:
  assumes "get_prop kvs ''language'' = JUndefined" and "get_prop kvs ''page'' = JUndefined"
    and "get_prop kvs ''perPage'' = JUndefined" and "get_prop kvs ''add'' = JUndefined"
    and "get_prop kvs ''search'' = JUndefined"
  shows "requests (snd (tool_getEconomicBlocks up (JObj kvs) w)) =
           requests w @ [\<lparr>req_method = GET, url = ''/tables/economic-blocks'',
              params = Some [(''language'', JStr ''pt''), (''add'', JUndefined),
                             (''search'', JUndefined)],
              body = None\<rparr>]
       \<and> requests (snd (tool_getHarmonizedSystem up (JObj kvs) w)) =
           requests w @ [\<lparr>req_method = GET, url = ''/tables/hs'',
              params = Some [(''language'', JStr ''pt''), (''page'', JNum 1),
                             (''perPage'', JNum 10), (''add'', JUndefined)],
              body = None\<rparr>]
       \<and> requests (snd (tool_getNBM up (JObj kvs) w)) =
           requests w @ [\<lparr>req_method = GET, url = ''/tables/nbm'',
              params = Some [(''language'', JStr ''pt''), (''page'', JNum 1),
                             (''perPage'', JNum 5), (''add'', JUndefined),
                             (''search'', JUndefined)],
              body = None\<rparr>]
       \<and> (\<forall>k a. getEconomicBlocks_schema (JObj k) = Inr a \<longrightarrow>
            (get_prop k ''language'' = JUndefined \<longrightarrow> eb_language a = ''pt''))
       \<and> (\<forall>k a. getHarmonizedSystem_schema (JObj k) = Inr a \<longrightarrow>
            (get_prop k ''language'' = JUndefined \<longrightarrow> hs_language a = ''pt'')
            \<and> (get_prop k ''page'' = JUndefined \<longrightarrow> hs_page a = 1)
            \<and> (get_prop k ''perPage'' = JUndefined \<longrightarrow> hs_perPage a = 10))
       \<and> (\<forall>k a. getNBM_schema (JObj k) = Inr a \<longrightarrow>
            (get_prop k ''language'' = JUndefined \<longrightarrow> nbm_language a = ''pt'')
            \<and> (get_prop k ''page'' = JUndefined \<longrightarrow> nbm_page a = 1)
            \<and> (get_prop k ''perPage'' = JUndefined \<longrightarrow> nbm_perPage a = 5))"
proof (intro conjI)
  have "getEconomicBlocks_schema (JObj kvs)
          = Inr \<lparr>eb_language = ''pt'', eb_add = None, eb_search = None\<rparr>"
    using assms
    by (simp add: getEconomicBlocks_schema_Inr_iff z_optional_def z_optional_default_def)
  from tool_getEconomicBlocks_requests [OF this]
  show "requests (snd (tool_getEconomicBlocks up (JObj kvs) w)) =
           requests w @ [\<lparr>req_method = GET, url = ''/tables/economic-blocks'',
              params = Some [(''language'', JStr ''pt''), (''add'', JUndefined),
                             (''search'', JUndefined)],
              body = None\<rparr>]"
    by (simp add: js_opt_string_def)
  have "getHarmonizedSystem_schema (JObj kvs)
          = Inr \<lparr>hs_language = ''pt'', hs_page = 1, hs_perPage = 10, hs_add = None\<rparr>"
    using assms
    by (simp add: getHarmonizedSystem_schema_Inr_iff z_optional_def z_optional_default_def)
  from tool_getHarmonizedSystem_requests [OF this]
  show "requests (snd (tool_getHarmonizedSystem up (JObj kvs) w)) =
           requests w @ [\<lparr>req_method = GET, url = ''/tables/hs'',
              params = Some [(''language'', JStr ''pt''), (''page'', JNum 1),
                             (''perPage'', JNum 10), (''add'', JUndefined)],
              body = None\<rparr>]"
    by (simp add: js_opt_string_def)
  have "getNBM_schema (JObj kvs)
          = Inr \<lparr>nbm_language = ''pt'', nbm_page = 1, nbm_perPage = 5, nbm_add = None,
                 nbm_search = None\<rparr>"
    using assms
    by (simp add: getNBM_schema_Inr_iff z_optional_def z_optional_default_def)
  from tool_getNBM_requests [OF this]
  show "requests (snd (tool_getNBM up (JObj kvs) w)) =
           requests w @ [\<lparr>req_method = GET, url = ''/tables/nbm'',
              params = Some [(''language'', JStr ''pt''), (''page'', JNum 1),
                             (''perPage'', JNum 5), (''add'', JUndefined),
                             (''search'', JUndefined)],
              body = None\<rparr>]"
    by (simp add: js_opt_string_def)
  show "\<forall>k a. getEconomicBlocks_schema (JObj k) = Inr a \<longrightarrow>
            (get_prop k ''language'' = JUndefined \<longrightarrow> eb_language a = ''pt'')"
    by (auto simp: getEconomicBlocks_schema_Inr_iff z_optional_default_Inr_iff)
  show "\<forall>k a. getHarmonizedSystem_schema (JObj k) = Inr a \<longrightarrow>
            (get_prop k ''language'' = JUndefined \<longrightarrow> hs_language a = ''pt'')
            \<and> (get_prop k ''page'' = JUndefined \<longrightarrow> hs_page a = 1)
            \<and> (get_prop k ''perPage'' = JUndefined \<longrightarrow> hs_perPage a = 10)"
    by (auto simp: getHarmonizedSystem_schema_Inr_iff z_optional_default_Inr_iff)
  show "\<forall>k a. getNBM_schema (JObj k) = Inr a \<longrightarrow>
            (get_prop k ''language'' = JUndefined \<longrightarrow> nbm_language a = ''pt'')
            \<and> (get_prop k ''page'' = JUndefined \<longrightarrow> nbm_page a = 1)
            \<and> (get_prop k ''perPage'' = JUndefined \<longrightarrow> nbm_perPage a = 5)"
    by (auto simp: getNBM_schema_Inr_iff z_optional_default_Inr_iff)
qed

text \<open>
  The instance: the three tools called with \<^verbatim>\<open>{}\<close>, and two calls that give one
  parameter and leave the others to their defaults.
\<close>

theorem table_tools_defaults_witness:
  "get_prop [] ''language'' = JUndefined \<and> get_prop [] ''page'' = JUndefined
   \<and> get_prop [] ''perPage'' = JUndefined \<and> get_prop [] ''add'' = JUndefined
   \<and> get_prop [] ''search'' = JUndefined
   \<and> requests (snd (tool_getEconomicBlocks (\<lambda>h r. HttpReply 200 JNull) (JObj [])
                       \<lparr>requests = [], console = []\<rparr>)) =
         [\<lparr>req_method = GET, url = ''/tables/economic-blocks'',
            params = Some [(''language'', JStr ''pt''), (''add'', JUndefined),
                           (''search'', JUndefined)],
            body = None\<rparr>]
   \<and> requests (snd (tool_getHarmonizedSystem (\<lambda>h r. HttpReply 200 JNull) (JObj [])
                       \<lparr>requests = [], console = []\<rparr>)) =
         [\<lparr>req_method = GET, url = ''/tables/hs'',
            params = Some [(''language'', JStr ''pt''), (''page'', JNum 1),
                           (''perPage'', JNum 10), (''add'', JUndefined)],
            body = None\<rparr>]
   \<and> requests (snd (tool_getNBM (\<lambda>h r. HttpReply 200 JNull) (JObj [])
                       \<lparr>requests = [], console = []\<rparr>)) =
         [\<lparr>req_method = GET, url = ''/tables/nbm'',
            params = Some [(''language'', JStr ''pt''), (''page'', JNum 1),
                           (''perPage'', JNum 5), (''add'', JUndefined),
                           (''search'', JUndefined)],
            body = None\<rparr>]
   \<and> getHarmonizedSystem_schema (JObj [(''page'', JNum 3)])
       = Inr \<lparr>hs_language = ''pt'', hs_page = 3, hs_perPage = 10, hs_add = None\<rparr>
   \<and> getNBM_schema (JObj [(''language'', JStr ''en'')])
       = Inr \<lparr>nbm_language = ''en'', nbm_page = 1, nbm_perPage = 5, nbm_add = None,
               nbm_search = None\<rparr>"
proof -
  have u: "get_prop [] k = JUndefined" for k
    by (simp add: get_prop_def)
  have hs: "getHarmonizedSystem_schema (JObj [(''page'', JNum 3)])
       = Inr \<lparr>hs_language = ''pt'', hs_page = 3, hs_perPage = 10, hs_add = None\<rparr>"
    by (simp add: getHarmonizedSystem_schema_def z_object_def get_prop_def
          z_optional_default_def z_optional_def)
  have nbm: "getNBM_schema (JObj [(''language'', JStr ''en'')])
       = Inr \<lparr>nbm_language = ''en'', nbm_page = 1, nbm_perPage = 5, nbm_add = None,
               nbm_search = None\<rparr>"
    by (simp add: getNBM_schema_def z_object_def get_prop_def
          z_optional_default_def z_optional_def)
  from table_tools_defaults [OF u u u u u, where up = "\<lambda>h r. HttpReply 200 JNull"
      and w = "\<lparr>requests = [], console = []\<rparr>"] u hs nbm
  show ?thesis
    by simp
qed

end
